theory Spec2Isabelle
  imports Main
begin

section \<open>Shared types\<close>

text \<open>
  Object ids are opaque and compared for equality only; a \<open>Date\<close> is the number of
  milliseconds since the epoch. The three user roles are those of the platform's user
  records (\<open>'user'\<close>, \<open>'staff'\<close>, \<open>'admin'\<close>).
\<close>

type_synonym oid = nat
type_synonym time = int

datatype user_role = RUser | RStaff | RAdmin

record user =
  u_id :: oid
  u_role :: user_role
  isActive :: bool

text \<open>The authenticated caller attached to a request (\<open>req.user\<close>).\<close>

record req_user =
  ru_id :: oid
  ru_role :: user_role

text \<open>
  Errors are values. \<open>AppError code msg\<close> is the application's error with its HTTP status;
  \<open>ValidationError\<close> is the rejection of a document or of an update by the schema's
  validators and casts; \<open>TypeError\<close> is JavaScript's error on reading a property of
  \<open>undefined\<close>.
\<close>

datatype error = AppError nat string | ValidationError | TypeError

section \<open>Appointments (models/Appointment.js)\<close>

datatype appt_type =
  Consultation | Fitting | FollowUp | Adjustment | Emergency | VirtualConsultation

datatype appt_status = Scheduled | Completed | Cancelled | NoShow | InProgress

text \<open>
  The fields of the schema that the operations below read or write. The free-form fields
  without validators (\<open>notes\<close>, \<open>documents\<close>, \<open>meetingLink\<close>, \<open>reminders\<close>) and the
  timestamps play no part in any check and are left out.
\<close>

record appointment =
  a_id :: oid
  patient :: oid
  admin :: oid
  appointmentType :: appt_type
  status :: appt_status
  startTime :: time
  endTime :: time
  reason :: string
  isVirtual :: bool
  cancelledAt :: "time option"
  cancellationReason :: "string option"

text \<open>
  The schema's validators as they run on a whole document: \<open>endTime\<close> must be after
  \<open>this.startTime\<close>, and the required string \<open>reason\<close> must not be empty. The other
  required paths and the enumerations hold by typing.
\<close>

definition appointment_validate :: "appointment \<Rightarrow> bool" where
  "appointment_validate this \<longleftrightarrow> endTime this > startTime this \<and> reason this \<noteq> []"

text \<open>
  The query of the \<open>pre('save')\<close> middleware: another document, not cancelled, of the same
  admin or of the same patient, whose interval meets that of the document being saved.
\<close>

definition conflict_query :: "appointment \<Rightarrow> appointment \<Rightarrow> bool" where
  "conflict_query this x \<longleftrightarrow>
     (admin x = admin this \<and> a_id x \<noteq> a_id this \<and> status x \<noteq> Cancelled \<and>
        startTime x < endTime this \<and> endTime x > startTime this) \<or>
     (patient x = patient this \<and> a_id x \<noteq> a_id this \<and> status x \<noteq> Cancelled \<and>
        startTime x < endTime this \<and> endTime x > startTime this)"

definition appointment_pre_save :: "appointment list \<Rightarrow> appointment \<Rightarrow> error + unit" where
  "appointment_pre_save db this =
     (if status this = Cancelled then Inr ()
      else case find (conflict_query this) db of
             Some existingAppointment \<Rightarrow> Inl (AppError 400 ''Time slot is already booked'')
           | None \<Rightarrow> Inr ())"

definition findById :: "oid \<Rightarrow> appointment list \<Rightarrow> appointment option" where
  "findById i db = find (\<lambda>x. a_id x = i) db"

definition store_put :: "appointment \<Rightarrow> appointment list \<Rightarrow> appointment list" where
  "store_put this db =
     (if findById (a_id this) db = None then db @ [this]
      else map (\<lambda>x. if a_id x = a_id this then this else x) db)"

text \<open>
  \<open>document.save()\<close>: the schema validation runs first, then the \<open>pre('save')\<close>
  middleware, and only then is the document written.
\<close>

definition appointment_save :: "appointment list \<Rightarrow> appointment \<Rightarrow> error + appointment list" where
  "appointment_save db this =
     (if \<not> appointment_validate this then Inl ValidationError
      else case appointment_pre_save db this of
             Inl e \<Rightarrow> Inl e
           | Inr _ \<Rightarrow> Inr (store_put this db))"

text \<open>A fresh object id for a new document.\<close>

definition new_id :: "appointment list \<Rightarrow> oid" where
  "new_id db = Suc (fold max (map a_id db) 0)"

text \<open>
  \<open>Appointment.create\<close>: builds the document (status defaults to \<open>scheduled\<close>) and saves
  it. A missing required value, or a date that does not parse, is a validation error.
\<close>

definition Appointment_create ::
  "appointment list \<Rightarrow> oid \<Rightarrow> oid \<Rightarrow> appt_type option \<Rightarrow> time option \<Rightarrow> time option \<Rightarrow>
   string option \<Rightarrow> bool \<Rightarrow> error + appointment \<times> appointment list" where
  "Appointment_create db p a ty st en rs virt =
     (case (ty, st, en, rs) of
        (Some ty', Some st', Some en', Some rs') \<Rightarrow>
          (let doc = \<lparr>a_id = new_id db, patient = p, admin = a, appointmentType = ty',
                      status = Scheduled, startTime = st', endTime = en', reason = rs',
                      isVirtual = virt, cancelledAt = None, cancellationReason = None\<rparr>
           in case appointment_save db doc of
                Inl e \<Rightarrow> Inl e
              | Inr db' \<Rightarrow> Inr (doc, db'))
      | _ \<Rightarrow> Inl ValidationError)"

section \<open>Appointment controller\<close>

text \<open>\<open>User.findOne({ role: 'admin', isActive: true })\<close>\<close>

definition find_admin :: "user list \<Rightarrow> user option" where
  "find_admin users = find (\<lambda>u. u_role u = RAdmin \<and> isActive u) users"

text \<open>
  The request body of \<open>createAppointment\<close>. \<open>b_startTime\<close> and \<open>b_endTime\<close> are the
  instants \<open>new Date(startTime)\<close> and \<open>new Date(endTime)\<close> denote, \<open>None\<close> for an invalid
  date, whose comparisons are all false.
\<close>

record create_body =
  b_appointmentType :: "appt_type option"
  b_startTime :: "time option"
  b_endTime :: "time option"
  b_reason :: "string option"
  b_isVirtual :: "bool option"

definition date_lt :: "time option \<Rightarrow> time option \<Rightarrow> bool" where
  "date_lt x y = (case (x, y) of (Some a, Some b) \<Rightarrow> a < b | _ \<Rightarrow> False)"

definition date_le :: "time option \<Rightarrow> time option \<Rightarrow> bool" where
  "date_le x y = (case (x, y) of (Some a, Some b) \<Rightarrow> a \<le> b | _ \<Rightarrow> False)"

definition createAppointment ::
  "time \<Rightarrow> user list \<Rightarrow> req_user \<Rightarrow> create_body \<Rightarrow> appointment list \<Rightarrow>
   error + appointment \<times> appointment list" where
  "createAppointment now users ru body db =
     (case find_admin users of
        None \<Rightarrow> Inl (AppError 400 ''No admin available for appointment'')
      | Some adminUser \<Rightarrow>
          if date_lt (b_startTime body) (Some now)
          then Inl (AppError 400 ''Cannot book appointments in the past'')
          else if date_le (b_endTime body) (b_startTime body)
          then Inl (AppError 400 ''End time must be after start time'')
          else Appointment_create db (ru_id ru) (u_id adminUser) (b_appointmentType body)
                 (b_startTime body) (b_endTime body) (b_reason body)
                 (case b_isVirtual body of Some v \<Rightarrow> v | None \<Rightarrow> False))"

text \<open>
  The body of \<open>updateAppointment\<close> is an arbitrary patch of schema paths: \<open>Some v\<close> sets
  the path, \<open>None\<close> leaves it alone.
\<close>

record patch =
  p_patient :: "oid option"
  p_admin :: "oid option"
  p_appointmentType :: "appt_type option"
  p_status :: "appt_status option"
  p_startTime :: "time option"
  p_endTime :: "time option"
  p_reason :: "string option"
  p_isVirtual :: "bool option"
  p_cancelledAt :: "time option"
  p_cancellationReason :: "string option"

definition apply_patch :: "patch \<Rightarrow> appointment \<Rightarrow> appointment" where
  "apply_patch p x =
     x\<lparr>patient := (case p_patient p of Some v \<Rightarrow> v | None \<Rightarrow> patient x),
       admin := (case p_admin p of Some v \<Rightarrow> v | None \<Rightarrow> admin x),
       appointmentType := (case p_appointmentType p of Some v \<Rightarrow> v | None \<Rightarrow> appointmentType x),
       status := (case p_status p of Some v \<Rightarrow> v | None \<Rightarrow> status x),
       startTime := (case p_startTime p of Some v \<Rightarrow> v | None \<Rightarrow> startTime x),
       endTime := (case p_endTime p of Some v \<Rightarrow> v | None \<Rightarrow> endTime x),
       reason := (case p_reason p of Some v \<Rightarrow> v | None \<Rightarrow> reason x),
       isVirtual := (case p_isVirtual p of Some v \<Rightarrow> v | None \<Rightarrow> isVirtual x),
       cancelledAt := (case p_cancelledAt p of Some v \<Rightarrow> Some v | None \<Rightarrow> cancelledAt x),
       cancellationReason :=
         (case p_cancellationReason p of Some v \<Rightarrow> Some v | None \<Rightarrow> cancellationReason x)\<rparr>"

text \<open>
  \<open>runValidators: true\<close> runs the validators of the paths the update sets, and only
  those. The validator of \<open>endTime\<close> compares the new value with \<open>this.startTime\<close>; in an
  update \<open>this\<close> is not the stored document, so what it reads there is taken as the
  parameter \<open>thisStart\<close> (\<open>None\<close> for \<open>undefined\<close>, against which the comparison is false).
\<close>

definition update_validators :: "time option \<Rightarrow> patch \<Rightarrow> bool" where
  "update_validators thisStart p \<longleftrightarrow>
     (case p_endTime p of None \<Rightarrow> True | Some v \<Rightarrow> date_lt thisStart (Some v)) \<and>
     (case p_reason p of None \<Rightarrow> True | Some r \<Rightarrow> r \<noteq> [])"

text \<open>
  \<open>Appointment.findByIdAndUpdate(id, body, { new: true, runValidators: true })\<close> is a
  query: it applies the patch in the database and returns the updated document. It does
  not load the document and call \<open>save()\<close>, so the \<open>pre('save')\<close> middleware is not run on
  this path.
\<close>

definition findByIdAndUpdate ::
  "time option \<Rightarrow> oid \<Rightarrow> patch \<Rightarrow> appointment list \<Rightarrow> error + appointment option \<times> appointment list" where
  "findByIdAndUpdate thisStart i p db =
     (if \<not> update_validators thisStart p then Inl ValidationError
      else case findById i db of
             None \<Rightarrow> Inr (None, db)
           | Some x \<Rightarrow> Inr (Some (apply_patch p x), store_put (apply_patch p x) db))"

definition updateAppointment ::
  "time option \<Rightarrow> req_user \<Rightarrow> oid \<Rightarrow> patch \<Rightarrow> appointment list \<Rightarrow>
   error + appointment option \<times> appointment list" where
  "updateAppointment thisStart ru i body db =
     (case findById i db of
        None \<Rightarrow> Inl (AppError 404 ''No appointment found with that ID'')
      | Some appointment \<Rightarrow>
          (let canUpdate = (ru_role ru = RAdmin \<or> ru_role ru = RStaff \<or>
                            patient appointment = ru_id ru)
           in if \<not> canUpdate
              then Inl (AppError 403 ''You do not have permission to update this appointment'')
              else findByIdAndUpdate thisStart i body db))"

text \<open>
  \<open>cancelAppointment\<close>; \<open>reason\<close> is \<open>req.body.reason\<close>, and \<open>req.body.reason || '...'\<close>
  takes the default for a missing and for an empty string alike.
\<close>

definition cancelAppointment ::
  "time \<Rightarrow> req_user \<Rightarrow> oid \<Rightarrow> string option \<Rightarrow> appointment list \<Rightarrow>
   error + appointment \<times> appointment list" where
  "cancelAppointment now ru i rsn db =
     (case findById i db of
        None \<Rightarrow> Inl (AppError 404 ''No appointment found with that ID'')
      | Some appointment \<Rightarrow>
          (let canCancel = (ru_role ru = RAdmin \<or> ru_role ru = RStaff \<or>
                            patient appointment = ru_id ru)
           in if \<not> canCancel
              then Inl (AppError 403 ''You do not have permission to cancel this appointment'')
              else
                (let appointment' = appointment\<lparr>
                       status := Cancelled,
                       cancelledAt := Some now,
                       cancellationReason :=
                         Some (case rsn of
                                 None \<Rightarrow> ''No reason provided''
                               | Some r \<Rightarrow> if r = [] then ''No reason provided'' else r)\<rparr>
                 in case appointment_save db appointment' of
                      Inl e \<Rightarrow> Inl e
                    | Inr db' \<Rightarrow> Inr (appointment', db'))))"

subsection \<open>The no-overlap invariant\<close>

text \<open>
  Two appointments overlap when their half-open intervals meet. A store satisfies the
  invariant when no two distinct appointments that are both not cancelled and share the
  admin or the patient overlap.
\<close>

definition overlaps :: "appointment \<Rightarrow> appointment \<Rightarrow> bool" where
  "overlaps A B \<longleftrightarrow> startTime A < endTime B \<and> startTime B < endTime A"

definition no_overlap :: "appointment list \<Rightarrow> bool" where
  "no_overlap db \<longleftrightarrow>
     (\<forall>A\<in>set db. \<forall>B\<in>set db.
        a_id A \<noteq> a_id B \<and> status A \<noteq> Cancelled \<and> status B \<noteq> Cancelled \<and>
        (admin A = admin B \<or> patient A = patient B) \<longrightarrow> \<not> overlaps A B)"

subsection \<open>Slot availability\<close>

text \<open>
  \<open>Date\<close> arithmetic in local time. \<open>tz\<close> is the offset of local time from UTC in
  milliseconds, taken as constant (no daylight-saving change within the day).
\<close>

definition setHours :: "int \<Rightarrow> time \<Rightarrow> int \<Rightarrow> int \<Rightarrow> int \<Rightarrow> int \<Rightarrow> time" where
  "setHours tz t h m s ms =
     ((t + tz) div 86400000) * 86400000 + h * 3600000 + m * 60000 + s * 1000 + ms - tz"

definition getMinutes :: "int \<Rightarrow> time \<Rightarrow> int" where
  "getMinutes tz t = ((t + tz) mod 3600000) div 60000"

definition setMinutes :: "int \<Rightarrow> time \<Rightarrow> int \<Rightarrow> time" where
  "setMinutes tz t m =
     ((t + tz) div 3600000) * 3600000 + m * 60000 + (t + tz) mod 60000 - tz"

record slot =
  slotStart :: time
  slotEnd :: time

text \<open>The test inside \<open>existingAppointments.some(...)\<close>.\<close>

definition slot_conflict :: "time \<Rightarrow> time \<Rightarrow> appointment \<Rightarrow> bool" where
  "slot_conflict sStart sEnd appointment \<longleftrightarrow>
     sStart < endTime appointment \<and> sEnd > startTime appointment"

text \<open>
  The \<open>for\<close> loop over the working hours, from \<open>hour\<close> up to (not including) \<open>17\<close>;
  \<open>selectedDate\<close> is the date object as the two \<open>setHours\<close> calls before the loop have
  left it.
\<close>

function slot_loop ::
  "int \<Rightarrow> time \<Rightarrow> time \<Rightarrow> appointment list \<Rightarrow> int \<Rightarrow> slot list" where
  "slot_loop tz now selectedDate existingAppointments hour =
     (if hour < 17 then
        (let sStart = setHours tz selectedDate hour 0 0 0;
             sEnd = setMinutes tz sStart (getMinutes tz sStart + 60);
             isAvailable = \<not> list_ex (slot_conflict sStart sEnd) existingAppointments
         in (if isAvailable \<and> sStart > now then [\<lparr>slotStart = sStart, slotEnd = sEnd\<rparr>] else [])
            @ slot_loop tz now selectedDate existingAppointments (hour + 1))
      else [])"
  by pat_completeness auto
termination
  by (relation "measure (\<lambda>(tz, now, d, ex, hour). nat (17 - hour))") auto

text \<open>
  \<open>getAvailableSlots\<close>; \<open>date\<close> is the instant \<open>new Date(req.query.date)\<close> denotes, \<open>None\<close>
  when the parameter is absent.
\<close>

definition existing_query :: "oid \<Rightarrow> time \<Rightarrow> time \<Rightarrow> appointment \<Rightarrow> bool" where
  "existing_query adminId startOfDay endOfDay x \<longleftrightarrow>
     admin x = adminId \<and> startTime x \<ge> startOfDay \<and> startTime x \<le> endOfDay \<and>
     status x \<noteq> Cancelled"

definition getAvailableSlots ::
  "int \<Rightarrow> time \<Rightarrow> user list \<Rightarrow> time option \<Rightarrow> appointment list \<Rightarrow> error + slot list" where
  "getAvailableSlots tz now users date db =
     (case date of
        None \<Rightarrow> Inl (AppError 400 ''Date is required'')
      | Some d \<Rightarrow>
          (case find_admin users of
             None \<Rightarrow> Inl (AppError 400 ''No admin available'')
           | Some adminUser \<Rightarrow>
               (let startOfDay = setHours tz d 0 0 0 0;
                    endOfDay = setHours tz startOfDay 23 59 59 999;
                    existingAppointments =
                      filter (existing_query (u_id adminUser) startOfDay endOfDay) db
                in Inr (slot_loop tz now endOfDay existingAppointments 9))))"



section \<open>Consultations (models/Consultation.js)\<close>

datatype cons_status = CScheduled | CActive | CCompleted | CCancelled

datatype part_role = PPatient | PAdmin | PObserver

datatype conn_status = Connected | Disconnected | Reconnecting

text \<open>
  An entry of \<open>participants\<close>. \<open>role\<close> is a required path of the entry; \<open>None\<close> stands
  for an entry that carries no role.
\<close>

record participant =
  pt_user :: oid
  pt_role :: "part_role option"
  joinedAt :: "time option"
  leftAt :: "time option"
  connectionStatus :: conn_status

record feedback =
  patientRating :: "int option"
  patientFeedback :: "string option"
  practitionerRating :: "int option"
  practitionerFeedback :: "string option"
  technicalRating :: "int option"

text \<open>
  The fields of the schema that the operations below read or write (\<open>recordings\<close>,
  \<open>attachments\<close>, \<open>technicalIssues\<close>, the follow-up fields and the timestamps are left
  out). The room id \<open>consultation_<id>_<ms>\<close> is kept as the pair it is printed from.
\<close>

record consultation =
  c_id :: oid
  c_appointment :: oid
  c_patient :: oid
  practitioner :: oid
  roomId :: "(oid \<times> time) option"
  c_status :: cons_status
  c_startTime :: time
  c_endTime :: "time option"
  actualStartTime :: "time option"
  actualEndTime :: "time option"
  duration :: "int option"
  c_notes :: "string option"
  patientNotes :: "string option"
  practitionerNotes :: "string option"
  participants :: "participant list"
  feedback :: feedback

text \<open>The \<open>trim: true\<close> setter of the three notes paths (ASCII white space).\<close>

definition is_space :: "char \<Rightarrow> bool" where
  "is_space ch \<longleftrightarrow> ch \<in> set [CHR '' '', CHR 0x09, CHR 0x0A, CHR 0x0B, CHR 0x0C, CHR 0x0D]"

definition trim :: "string \<Rightarrow> string" where
  "trim s = rev (dropWhile is_space (rev (dropWhile is_space s)))"

text \<open>JavaScript truthiness of an optional string and of an optional number.\<close>

definition truthy_str :: "string option \<Rightarrow> bool" where
  "truthy_str v = (case v of None \<Rightarrow> False | Some s \<Rightarrow> s \<noteq> [])"

definition truthy_num :: "int option \<Rightarrow> bool" where
  "truthy_num v = (case v of None \<Rightarrow> False | Some n \<Rightarrow> n \<noteq> 0)"

text \<open>
  \<open>Math.round(ms / (1000 * 60))\<close> on a difference of two dates: rounding to the nearest
  minute, halves upwards.
\<close>

definition round_minutes :: "int \<Rightarrow> int" where
  "round_minutes ms = (ms + 30000) div 60000"

definition rating_ok :: "int option \<Rightarrow> bool" where
  "rating_ok v = (case v of None \<Rightarrow> True | Some n \<Rightarrow> 1 \<le> n \<and> n \<le> 5)"

text \<open>
  The schema's validators on a whole document: \<open>roomId\<close> is required, every participant
  entry needs its \<open>role\<close>, and the three ratings lie between 1 and 5.
\<close>

definition cons_validate :: "consultation \<Rightarrow> bool" where
  "cons_validate this \<longleftrightarrow>
     roomId this \<noteq> None \<and>
     list_all (\<lambda>p. pt_role p \<noteq> None) (participants this) \<and>
     rating_ok (patientRating (feedback this)) \<and>
     rating_ok (practitionerRating (feedback this)) \<and>
     rating_ok (technicalRating (feedback this))"

text \<open>The two \<open>pre('save')\<close> middlewares, in the order they are registered.\<close>

definition pre_save_roomId :: "time \<Rightarrow> consultation \<Rightarrow> consultation" where
  "pre_save_roomId now this =
     (if roomId this = None then this\<lparr>roomId := Some (c_id this, now)\<rparr> else this)"

definition pre_save_duration :: "consultation \<Rightarrow> consultation" where
  "pre_save_duration this =
     (case (actualStartTime this, actualEndTime this) of
        (Some s, Some e) \<Rightarrow>
          if \<not> truthy_num (duration this)
          then this\<lparr>duration := Some (round_minutes (e - s))\<rparr>
          else this
      | _ \<Rightarrow> this)"

text \<open>
  \<open>document.save()\<close> at the level of one document: validation first, then the
  middlewares; the result is the document as it is stored.
\<close>

definition cons_save :: "time \<Rightarrow> consultation \<Rightarrow> error + consultation" where
  "cons_save now this =
     (if \<not> cons_validate this then Inl ValidationError
      else Inr (pre_save_duration (pre_save_roomId now this)))"

text \<open>The instance methods. \<open>now\<close> is the value of \<open>new Date()\<close>.\<close>

definition startConsultation_m :: "time \<Rightarrow> consultation \<Rightarrow> error + consultation" where
  "startConsultation_m now this =
     cons_save now (this\<lparr>c_status := CActive, actualStartTime := Some now\<rparr>)"

text \<open>
  With \<open>actualStartTime\<close> unset the difference of the two dates is \<open>NaN\<close>, which the
  \<open>Number\<close> path \<open>duration\<close> does not take: the save is rejected.
\<close>

definition endConsultation_m :: "time \<Rightarrow> string option \<Rightarrow> consultation \<Rightarrow> error + consultation" where
  "endConsultation_m now notes this =
     (let this1 = this\<lparr>c_status := CCompleted, actualEndTime := Some now\<rparr>;
          this2 = (if truthy_str notes then this1\<lparr>c_notes := map_option trim notes\<rparr> else this1)
      in case actualStartTime this2 of
           None \<Rightarrow> Inl ValidationError
         | Some s \<Rightarrow> cons_save now (this2\<lparr>duration := Some (round_minutes (now - s))\<rparr>))"

text \<open>\<open>update_first P f xs\<close> changes in place the entry \<open>xs.find(P)\<close> returns.\<close>

fun update_first :: "('a \<Rightarrow> bool) \<Rightarrow> ('a \<Rightarrow> 'a) \<Rightarrow> 'a list \<Rightarrow> 'a list" where
  "update_first P f [] = []"
| "update_first P f (x # xs) = (if P x then f x # xs else x # update_first P f xs)"

definition addParticipant :: "time \<Rightarrow> oid \<Rightarrow> consultation \<Rightarrow> error + consultation" where
  "addParticipant now userId this =
     (case find (\<lambda>p. pt_user p = userId) (participants this) of
        Some existingParticipant \<Rightarrow>
          cons_save now (this\<lparr>participants :=
            update_first (\<lambda>p. pt_user p = userId)
              (\<lambda>p. p\<lparr>joinedAt := Some now, leftAt := None\<rparr>) (participants this)\<rparr>)
      | None \<Rightarrow>
          cons_save now (this\<lparr>participants := participants this @
            [\<lparr>pt_user = userId, pt_role = None, joinedAt = Some now, leftAt = None,
              connectionStatus = Disconnected\<rparr>]\<rparr>))"

definition removeParticipant :: "time \<Rightarrow> oid \<Rightarrow> consultation \<Rightarrow> error + consultation" where
  "removeParticipant now userId this =
     (case find (\<lambda>p. pt_user p = userId) (participants this) of
        Some participant \<Rightarrow>
          cons_save now (this\<lparr>participants :=
            update_first (\<lambda>p. pt_user p = userId)
              (\<lambda>p. p\<lparr>leftAt := Some now\<rparr>) (participants this)\<rparr>)
      | None \<Rightarrow> cons_save now this)"

section \<open>Consultation controller\<close>

definition cons_findById :: "oid \<Rightarrow> consultation list \<Rightarrow> consultation option" where
  "cons_findById i db = find (\<lambda>x. c_id x = i) db"

definition cons_put :: "consultation \<Rightarrow> consultation list \<Rightarrow> consultation list" where
  "cons_put this db =
     (if cons_findById (c_id this) db = None then db @ [this]
      else map (\<lambda>x. if c_id x = c_id this then this else x) db)"

definition new_cid :: "consultation list \<Rightarrow> oid" where
  "new_cid db = Suc (fold max (map c_id db) 0)"

text \<open>
  The appointment schema declares the paths \<open>patient\<close> and \<open>admin\<close>; it has no path
  \<open>user\<close> and no path \<open>practitioner\<close>, so reading either from an appointment document
  gives \<open>undefined\<close>.
\<close>

definition appointment_user :: "appointment \<Rightarrow> oid option" where
  "appointment_user appointment = None"

definition appointment_practitioner :: "appointment \<Rightarrow> oid option" where
  "appointment_practitioner appointment = None"

text \<open>\<open>Consultation.create\<close>: the new document has no \<open>roomId\<close> when it is saved.\<close>

definition Consultation_create ::
  "time \<Rightarrow> consultation list \<Rightarrow> oid \<Rightarrow> oid \<Rightarrow> oid \<Rightarrow> time \<Rightarrow> time \<Rightarrow>
   (error + consultation) \<times> consultation list" where
  "Consultation_create now cdb appointmentId p pr st en =
     (let doc = \<lparr>c_id = new_cid cdb, c_appointment = appointmentId, c_patient = p,
                 practitioner = pr, roomId = None, c_status = CScheduled, c_startTime = st,
                 c_endTime = Some en, actualStartTime = None, actualEndTime = None,
                 duration = None, c_notes = None, patientNotes = None,
                 practitionerNotes = None, participants = [],
                 feedback = \<lparr>patientRating = None, patientFeedback = None,
                             practitionerRating = None, practitionerFeedback = None,
                             technicalRating = None\<rparr>\<rparr>
      in case cons_save now doc of
           Inl e \<Rightarrow> (Inl e, cdb)
         | Inr doc' \<Rightarrow> (Inr doc', cons_put doc' cdb))"

text \<open>
  \<open>createConsultation\<close>. The authorization test reads \<open>appointment.user._id\<close> first; on
  \<open>undefined\<close> that read throws before anything else is looked at. The conjunction is
  evaluated left to right, as \<open>&&\<close> is.
\<close>

definition createConsultation ::
  "time \<Rightarrow> req_user \<Rightarrow> oid \<Rightarrow> appointment list \<Rightarrow> consultation list \<Rightarrow>
   (error + consultation) \<times> consultation list" where
  "createConsultation now ru appointmentId adb cdb =
     (case findById appointmentId adb of
        None \<Rightarrow> (Inl (AppError 404 ''Appointment not found''), cdb)
      | Some appointment \<Rightarrow>
          (case appointment_user appointment of
             None \<Rightarrow> (Inl TypeError, cdb)
           | Some u \<Rightarrow>
               if u \<noteq> ru_id ru \<and> appointment_practitioner appointment = None
               then (Inl TypeError, cdb)
               else if u \<noteq> ru_id ru \<and> appointment_practitioner appointment \<noteq> Some (ru_id ru) \<and>
                       ru_role ru \<noteq> RAdmin
               then (Inl (AppError 403
                      ''Not authorized to create consultation for this appointment''), cdb)
               else
                 (case find (\<lambda>c. c_appointment c = appointmentId) cdb of
                    Some existingConsultation \<Rightarrow> (Inr existingConsultation, cdb)
                  | None \<Rightarrow>
                      (case appointment_practitioner appointment of
                         None \<Rightarrow> (Inl TypeError, cdb)
                       | Some pr \<Rightarrow>
                           Consultation_create now cdb appointmentId u pr
                             (startTime appointment) (endTime appointment)))))"

definition startConsultation ::
  "time \<Rightarrow> req_user \<Rightarrow> oid \<Rightarrow> consultation list \<Rightarrow> (error + consultation) \<times> consultation list" where
  "startConsultation now ru i db =
     (case cons_findById i db of
        None \<Rightarrow> (Inl (AppError 404 ''Consultation not found''), db)
      | Some consultation \<Rightarrow>
          if c_patient consultation \<noteq> ru_id ru \<and> practitioner consultation \<noteq> ru_id ru \<and>
             ru_role ru \<noteq> RAdmin
          then (Inl (AppError 403 ''Not authorized to start this consultation''), db)
          else
            (case startConsultation_m now consultation of
               Inl e \<Rightarrow> (Inl e, db)
             | Inr c1 \<Rightarrow>
                 (case addParticipant now (ru_id ru) c1 of
                    Inl e \<Rightarrow> (Inl e, cons_put c1 db)
                  | Inr c2 \<Rightarrow> (Inr c2, cons_put c2 db))))"

text \<open>The three notes of the body of \<open>endConsultation\<close>.\<close>

record end_body =
  e_notes :: "string option"
  e_patientNotes :: "string option"
  e_practitionerNotes :: "string option"

definition endConsultation ::
  "time \<Rightarrow> req_user \<Rightarrow> oid \<Rightarrow> end_body \<Rightarrow> consultation list \<Rightarrow>
   (error + consultation) \<times> consultation list" where
  "endConsultation now ru i body db =
     (case cons_findById i db of
        None \<Rightarrow> (Inl (AppError 404 ''Consultation not found''), db)
      | Some consultation \<Rightarrow>
          if practitioner consultation \<noteq> ru_id ru \<and> ru_role ru \<noteq> RAdmin
          then (Inl (AppError 403 ''Only the practitioner can end the consultation''), db)
          else
            (case endConsultation_m now (e_notes body) consultation of
               Inl e \<Rightarrow> (Inl e, db)
             | Inr c1 \<Rightarrow>
                 (let c2 = (if truthy_str (e_patientNotes body)
                            then c1\<lparr>patientNotes := map_option trim (e_patientNotes body)\<rparr>
                            else c1);
                      c3 = (if truthy_str (e_practitionerNotes body)
                            then c2\<lparr>practitionerNotes :=
                                      map_option trim (e_practitionerNotes body)\<rparr>
                            else c2)
                  in case cons_save now c3 of
                       Inl e \<Rightarrow> (Inl e, cons_put c1 db)
                     | Inr c4 \<Rightarrow> (Inr c4, cons_put c4 db))))"

definition joinConsultation ::
  "time \<Rightarrow> req_user \<Rightarrow> oid \<Rightarrow> consultation list \<Rightarrow> (error + consultation) \<times> consultation list" where
  "joinConsultation now ru i db =
     (case cons_findById i db of
        None \<Rightarrow> (Inl (AppError 404 ''Consultation not found''), db)
      | Some consultation \<Rightarrow>
          if c_patient consultation \<noteq> ru_id ru \<and> practitioner consultation \<noteq> ru_id ru \<and>
             ru_role ru \<noteq> RAdmin
          then (Inl (AppError 403 ''Not authorized to join this consultation''), db)
          else
            (case addParticipant now (ru_id ru) consultation of
               Inl e \<Rightarrow> (Inl e, db)
             | Inr c1 \<Rightarrow> (Inr c1, cons_put c1 db)))"

definition leaveConsultation ::
  "time \<Rightarrow> req_user \<Rightarrow> oid \<Rightarrow> consultation list \<Rightarrow> (error + consultation) \<times> consultation list" where
  "leaveConsultation now ru i db =
     (case cons_findById i db of
        None \<Rightarrow> (Inl (AppError 404 ''Consultation not found''), db)
      | Some consultation \<Rightarrow>
          (case removeParticipant now (ru_id ru) consultation of
             Inl e \<Rightarrow> (Inl e, db)
           | Inr c1 \<Rightarrow> (Inr c1, cons_put c1 db)))"

text \<open>\<open>addNotes\<close>; \<open>ty\<close> is the \<open>type\<close> of the body.\<close>

definition addNotes ::
  "time \<Rightarrow> req_user \<Rightarrow> oid \<Rightarrow> string option \<Rightarrow> string option \<Rightarrow> consultation list \<Rightarrow>
   (error + consultation) \<times> consultation list" where
  "addNotes now ru i notes ty db =
     (case cons_findById i db of
        None \<Rightarrow> (Inl (AppError 404 ''Consultation not found''), db)
      | Some consultation \<Rightarrow>
          if c_patient consultation \<noteq> ru_id ru \<and> practitioner consultation \<noteq> ru_id ru \<and>
             ru_role ru \<noteq> RAdmin
          then (Inl (AppError 403 ''Not authorized to add notes to this consultation''), db)
          else
            (let c1 =
               (if ty = Some ''patient'' \<and> c_patient consultation = ru_id ru
                then consultation\<lparr>patientNotes := map_option trim notes\<rparr>
                else if ty = Some ''practitioner'' \<and> practitioner consultation = ru_id ru
                then consultation\<lparr>practitionerNotes := map_option trim notes\<rparr>
                else consultation\<lparr>c_notes := map_option trim notes\<rparr>)
             in case cons_save now c1 of
                  Inl e \<Rightarrow> (Inl e, db)
                | Inr c2 \<Rightarrow> (Inr c2, cons_put c2 db)))"

record feedback_body =
  f_rating :: "int option"
  f_feedback :: "string option"
  f_technicalRating :: "int option"

definition submitFeedback ::
  "time \<Rightarrow> req_user \<Rightarrow> oid \<Rightarrow> feedback_body \<Rightarrow> consultation list \<Rightarrow>
   (error + consultation) \<times> consultation list" where
  "submitFeedback now ru i body db =
     (case cons_findById i db of
        None \<Rightarrow> (Inl (AppError 404 ''Consultation not found''), db)
      | Some consultation \<Rightarrow>
          if c_patient consultation \<noteq> ru_id ru \<and> practitioner consultation \<noteq> ru_id ru
          then (Inl (AppError 403
                 ''Not authorized to submit feedback for this consultation''), db)
          else
            (let fb = feedback consultation;
                 fb1 =
                   (if c_patient consultation = ru_id ru
                    then fb\<lparr>patientRating := f_rating body, patientFeedback := f_feedback body\<rparr>
                    else if practitioner consultation = ru_id ru
                    then fb\<lparr>practitionerRating := f_rating body,
                            practitionerFeedback := f_feedback body\<rparr>
                    else fb);
                 fb2 = (if truthy_num (f_technicalRating body)
                        then fb1\<lparr>technicalRating := f_technicalRating body\<rparr>
                        else fb1)
             in case cons_save now (consultation\<lparr>feedback := fb2\<rparr>) of
                  Inl e \<Rightarrow> (Inl e, db)
                | Inr c2 \<Rightarrow> (Inr c2, cons_put c2 db)))"

section \<open>Sample data\<close>

text \<open>Concrete documents and requests used where a property is evaluated.\<close>

abbreviation sample_admin :: user where
  "sample_admin \<equiv> \<lparr>u_id = 1, u_role = RAdmin, isActive = True\<rparr>"

abbreviation booking :: "oid \<Rightarrow> oid \<Rightarrow> time \<Rightarrow> time \<Rightarrow> appointment" where
  "booking i p s e \<equiv>
     \<lparr>a_id = i, patient = p, admin = 1, appointmentType = Fitting, status = Scheduled,
      startTime = s, endTime = e, reason = ''fitting'', isVirtual = False,
      cancelledAt = None, cancellationReason = None\<rparr>"

abbreviation request :: "time \<Rightarrow> time \<Rightarrow> create_body" where
  "request s e \<equiv>
     \<lparr>b_appointmentType = Some Fitting, b_startTime = Some s, b_endTime = Some e,
      b_reason = Some ''fitting'', b_isVirtual = None\<rparr>"

abbreviation no_patch :: patch where
  "no_patch \<equiv>
     \<lparr>p_patient = None, p_admin = None, p_appointmentType = None, p_status = None,
      p_startTime = None, p_endTime = None, p_reason = None, p_isVirtual = None,
      p_cancelledAt = None, p_cancellationReason = None\<rparr>"

text \<open>The candidate slot of hour \<open>h\<close> on the local day of \<open>d\<close>.\<close>

abbreviation day_slot :: "int \<Rightarrow> time \<Rightarrow> int \<Rightarrow> slot" where
  "day_slot tz d h \<equiv>
     \<lparr>slotStart = setHours tz d h 0 0 0, slotEnd = setHours tz d h 0 0 0 + 60 * 60000\<rparr>"

abbreviation no_feedback :: feedback where
  "no_feedback \<equiv>
     \<lparr>patientRating = None, patientFeedback = None, practitionerRating = None,
      practitionerFeedback = None, technicalRating = None\<rparr>"

abbreviation sample_consultation :: consultation where
  "sample_consultation \<equiv>
     \<lparr>c_id = 1, c_appointment = 1, c_patient = 2, practitioner = 1,
      roomId = Some (1, 1749513600000), c_status = CScheduled,
      c_startTime = 1749513600000 + 10 * 3600000,
      c_endTime = Some (1749513600000 + 11 * 3600000),
      actualStartTime = None, actualEndTime = None, duration = None, c_notes = None,
      patientNotes = None, practitionerNotes = None, participants = [],
      feedback = no_feedback\<rparr>"

section \<open>Date arithmetic and the slot loop\<close>

declare slot_loop.simps [simp del]

lemma setMinutes_plus_60: "setMinutes tz t (getMinutes tz t + 60) = t + 3600000"
proof -
  define L where "L = t + tz"
  have a: "L mod 60000 = (L mod 3600000) mod 60000"
    by (simp add: mod_mod_cancel)
  have b: "(L mod 3600000) div 60000 * 60000 + (L mod 3600000) mod 60000 = L mod 3600000"
    by simp
  have c: "L div 3600000 * 3600000 + L mod 3600000 = L" by simp
  show ?thesis
    unfolding setMinutes_def getMinutes_def L_def[symmetric]
    using a b c L_def by (simp add: algebra_simps)
qed

lemma setHours_end_of_day:
  "setHours tz (setHours tz (setHours tz d 0 0 0 0) 23 59 59 999) h 0 0 0 =
   setHours tz d 0 0 0 0 + h * 3600000"
proof -
  define D where "D = (d + tz) div 86400000"
  have 1: "(D * 86400000) div 86400000 = D" by simp
  have 2: "(D * 86400000 + 86399999) div 86400000 = D" by simp
  show ?thesis
    unfolding setHours_def D_def[symmetric] using 1 2 by (simp add: algebra_simps)
qed

lemma setHours_end_value:
  "setHours tz (setHours tz d 0 0 0 0) 23 59 59 999 = setHours tz d 0 0 0 0 + 86399999"
proof -
  define D where "D = (d + tz) div 86400000"
  have 1: "(D * 86400000) div 86400000 = D" by simp
  show ?thesis
    unfolding setHours_def D_def[symmetric] using 1 by (simp add: algebra_simps)
qed

text \<open>The slots of the loop, described hour by hour.\<close>

lemma slot_loop_step:
  "slot_loop tz now (setHours tz (setHours tz d 0 0 0 0) 23 59 59 999) ex h =
     (if h < 17 then
        (if \<not> list_ex (slot_conflict (setHours tz d 0 0 0 0 + h * 3600000)
                         (setHours tz d 0 0 0 0 + h * 3600000 + 3600000)) ex \<and>
            setHours tz d 0 0 0 0 + h * 3600000 > now
         then [\<lparr>slotStart = setHours tz d 0 0 0 0 + h * 3600000,
                slotEnd = setHours tz d 0 0 0 0 + h * 3600000 + 3600000\<rparr>]
         else [])
        @ slot_loop tz now (setHours tz (setHours tz d 0 0 0 0) 23 59 59 999) ex (h + 1)
      else [])"
  by (subst slot_loop.simps)
     (simp only: Let_def setMinutes_plus_60 setHours_end_of_day)

lemma slot_loop_sound:
  "s \<in> set (slot_loop tz now (setHours tz (setHours tz d 0 0 0 0) 23 59 59 999) ex h) \<Longrightarrow>
   \<exists>k. h \<le> k \<and> k < 17 \<and>
       s = \<lparr>slotStart = setHours tz d 0 0 0 0 + k * 3600000,
            slotEnd = setHours tz d 0 0 0 0 + k * 3600000 + 3600000\<rparr> \<and>
       \<not> list_ex (slot_conflict (slotStart s) (slotEnd s)) ex \<and> slotStart s > now"
proof (induction "nat (17 - h)" arbitrary: h)
  case 0
  then have "\<not> h < 17" by simp
  with 0 show ?case by (subst (asm) slot_loop_step) simp
next
  case (Suc n)
  then have h: "h < 17" and n: "n = nat (17 - (h + 1))" by simp_all
  from Suc.prems h have
    "(s = \<lparr>slotStart = setHours tz d 0 0 0 0 + h * 3600000,
            slotEnd = setHours tz d 0 0 0 0 + h * 3600000 + 3600000\<rparr> \<and>
      \<not> list_ex (slot_conflict (setHours tz d 0 0 0 0 + h * 3600000)
                         (setHours tz d 0 0 0 0 + h * 3600000 + 3600000)) ex \<and>
            setHours tz d 0 0 0 0 + h * 3600000 > now) \<or>
     s \<in> set (slot_loop tz now (setHours tz (setHours tz d 0 0 0 0) 23 59 59 999) ex (h + 1))"
    by (subst (asm) slot_loop_step) (auto split: if_splits)
  then show ?case
  proof
    assume a: "s = \<lparr>slotStart = setHours tz d 0 0 0 0 + h * 3600000,
            slotEnd = setHours tz d 0 0 0 0 + h * 3600000 + 3600000\<rparr> \<and>
      \<not> list_ex (slot_conflict (setHours tz d 0 0 0 0 + h * 3600000)
                         (setHours tz d 0 0 0 0 + h * 3600000 + 3600000)) ex \<and>
            setHours tz d 0 0 0 0 + h * 3600000 > now"
    show ?thesis
      by (rule exI[of _ h]) (use a h in simp)
  next
    assume "s \<in> set (slot_loop tz now (setHours tz (setHours tz d 0 0 0 0) 23 59 59 999) ex (h + 1))"
    from Suc.hyps(1)[OF n this] obtain k where
      "h + 1 \<le> k" "k < 17"
      "s = \<lparr>slotStart = setHours tz d 0 0 0 0 + k * 3600000,
            slotEnd = setHours tz d 0 0 0 0 + k * 3600000 + 3600000\<rparr>"
      "\<not> list_ex (slot_conflict (slotStart s) (slotEnd s)) ex" "slotStart s > now"
      by blast
    then show ?thesis by (intro exI[of _ k]) simp
  qed
qed

lemma slot_loop_complete:
  "h \<le> k \<Longrightarrow> k < 17 \<Longrightarrow>
   \<not> list_ex (slot_conflict (setHours tz d 0 0 0 0 + k * 3600000)
                (setHours tz d 0 0 0 0 + k * 3600000 + 3600000)) ex \<Longrightarrow>
   setHours tz d 0 0 0 0 + k * 3600000 > now \<Longrightarrow>
   \<lparr>slotStart = setHours tz d 0 0 0 0 + k * 3600000,
    slotEnd = setHours tz d 0 0 0 0 + k * 3600000 + 3600000\<rparr>
     \<in> set (slot_loop tz now (setHours tz (setHours tz d 0 0 0 0) 23 59 59 999) ex h)"
proof (induction "nat (17 - h)" arbitrary: h)
  case 0
  then show ?case by simp
next
  case (Suc n)
  then have h: "h < 17" and n: "n = nat (17 - (h + 1))" by simp_all
  show ?case
  proof (cases "k = h")
    case True
    with Suc.prems h show ?thesis by (subst slot_loop_step) simp
  next
    case False
    with Suc.prems have "h + 1 \<le> k" by simp
    from Suc.hyps(1)[OF n this Suc.prems(2,3,4)] h show ?thesis
      by (subst slot_loop_step) simp
  qed
qed



section \<open>The appointment store\<close>

lemma find_SomeD: "find P xs = Some x \<Longrightarrow> P x \<and> x \<in> set xs"
  by (induction xs) (auto split: if_splits)

lemma findById_SomeD: "findById i db = Some x \<Longrightarrow> a_id x = i \<and> x \<in> set db"
  unfolding findById_def by (drule find_SomeD) simp

lemma findById_None_iff: "findById i db = None \<longleftrightarrow> (\<forall>x\<in>set db. a_id x \<noteq> i)"
  unfolding findById_def by (auto simp: find_None_iff)

lemma set_store_put:
  "set (store_put this db) = insert this {x \<in> set db. a_id x \<noteq> a_id this}"
proof (cases "findById (a_id this) db = None")
  case True
  then show ?thesis by (auto simp: store_put_def findById_None_iff)
next
  case False
  then obtain y where "y \<in> set db" "a_id y = a_id this"
    by (auto simp: findById_None_iff)
  with False show ?thesis by (auto simp: store_put_def image_iff)
qed

lemma find_app:
  "find P (xs @ ys) = (case find P xs of None \<Rightarrow> find P ys | Some x \<Rightarrow> Some x)"
  by (induction xs) auto

lemma findById_store_put: "findById (a_id this) (store_put this db) = Some this"
proof (cases "findById (a_id this) db = None")
  case True
  then have "find (\<lambda>x. a_id x = a_id this) db = None" by (simp add: findById_def)
  then show ?thesis using True by (simp add: store_put_def findById_def find_app)
next
  case False
  have "find (\<lambda>x. a_id x = i) db \<noteq> None \<Longrightarrow> a_id this = i \<Longrightarrow>
        find (\<lambda>x. a_id x = i) (map (\<lambda>x. if a_id x = i then this else x) db) = Some this" for i
    by (induction db) auto
  from this[of "a_id this"] False show ?thesis
    by (auto simp: store_put_def findById_def)
qed

lemma fold_max_ge: "(b::nat) \<le> fold max xs b"
  by (induction xs arbitrary: b) (auto intro: order_trans[OF max.cobounded2])

lemma fold_max_mem: "x \<in> set xs \<Longrightarrow> (x::nat) \<le> fold max xs b"
proof (induction xs arbitrary: b)
  case Nil then show ?case by simp
next
  case (Cons y ys)
  show ?case
  proof (cases "x = y")
    case True
    have "x \<le> max y b" using True by simp
    also have "\<dots> \<le> fold max ys (max y b)" by (rule fold_max_ge)
    finally show ?thesis by simp
  next
    case False
    with Cons show ?thesis by simp
  qed
qed

lemma new_id_fresh: "x \<in> set db \<Longrightarrow> a_id x \<noteq> new_id db"
proof -
  assume "x \<in> set db"
  then have "a_id x \<in> set (map a_id db)" by simp
  then have "a_id x \<le> fold max (map a_id db) 0" by (rule fold_max_mem)
  then show ?thesis by (simp add: new_id_def)
qed

lemma appointment_save_InrD:
  "appointment_save db this = Inr db' \<Longrightarrow>
   db' = store_put this db \<and> appointment_validate this \<and>
   (status this \<noteq> Cancelled \<longrightarrow> (\<forall>x\<in>set db. \<not> conflict_query this x))"
  by (auto simp: appointment_save_def appointment_pre_save_def find_None_iff
           split: if_splits option.splits sum.splits)

lemma no_overlap_store_put:
  assumes inv: "no_overlap db"
    and ok: "status this \<noteq> Cancelled \<longrightarrow> (\<forall>x\<in>set db. \<not> conflict_query this x)"
  shows "no_overlap (store_put this db)"
  unfolding no_overlap_def
proof (intro ballI impI)
  fix A B
  assume A: "A \<in> set (store_put this db)" and B: "B \<in> set (store_put this db)"
    and h: "a_id A \<noteq> a_id B \<and> status A \<noteq> Cancelled \<and> status B \<noteq> Cancelled \<and>
            (admin A = admin B \<or> patient A = patient B)"
  from A have A': "A = this \<or> (A \<in> set db \<and> a_id A \<noteq> a_id this)" by (simp add: set_store_put)
  from B have B': "B = this \<or> (B \<in> set db \<and> a_id B \<noteq> a_id this)" by (simp add: set_store_put)
  consider (both) "A = this" "B = this"
    | (left) "A = this" "B \<in> set db" "a_id B \<noteq> a_id this"
    | (right) "B = this" "A \<in> set db" "a_id A \<noteq> a_id this"
    | (old) "A \<in> set db" "B \<in> set db"
    using A' B' by blast
  then show "\<not> overlaps A B"
  proof cases
    case both
    with h show ?thesis by simp
  next
    case left
    with h ok have "\<not> conflict_query this B" by simp
    with left h show ?thesis by (auto simp: conflict_query_def overlaps_def)
  next
    case right
    with h ok have "\<not> conflict_query this A" by simp
    with right h show ?thesis by (auto simp: conflict_query_def overlaps_def)
  next
    case old
    with inv h show ?thesis unfolding no_overlap_def by blast
  qed
qed

lemma appointment_save_no_overlap:
  "no_overlap db \<Longrightarrow> appointment_save db this = Inr db' \<Longrightarrow> no_overlap db'"
  using appointment_save_InrD[of db this db'] no_overlap_store_put[of db this] by blast

lemma createAppointment_InrD:
  assumes "createAppointment now users ru body db = Inr (a, db')"
  shows "\<exists>adminUser ty st en rs.
           find_admin users = Some adminUser \<and> b_appointmentType body = Some ty \<and>
           b_startTime body = Some st \<and> b_endTime body = Some en \<and> b_reason body = Some rs \<and>
           now \<le> st \<and> st < en \<and>
           a = \<lparr>a_id = new_id db, patient = ru_id ru, admin = u_id adminUser,
                appointmentType = ty, status = Scheduled, startTime = st, endTime = en,
                reason = rs,
                isVirtual = (case b_isVirtual body of Some v \<Rightarrow> v | None \<Rightarrow> False),
                cancelledAt = None, cancellationReason = None\<rparr> \<and>
           appointment_save db a = Inr db'"
  using assms
  by (auto simp: createAppointment_def Appointment_create_def Let_def date_lt_def date_le_def
           split: option.splits if_splits sum.splits)

lemma createAppointment_no_overlap:
  assumes "no_overlap db" and "createAppointment now users ru body db = Inr (a, db')"
  shows "no_overlap db'"
  using createAppointment_InrD[OF assms(2)] appointment_save_no_overlap[OF assms(1)] by blast

lemma cancelAppointment_InrD:
  assumes "cancelAppointment now ru i rsn db = Inr (a', db')"
  shows "\<exists>a. findById i db = Some a \<and>
             (ru_role ru = RAdmin \<or> ru_role ru = RStaff \<or> patient a = ru_id ru) \<and>
             a' = a\<lparr>status := Cancelled, cancelledAt := Some now,
                    cancellationReason :=
                      Some (case rsn of None \<Rightarrow> ''No reason provided''
                            | Some r \<Rightarrow> if r = [] then ''No reason provided'' else r)\<rparr> \<and>
             appointment_save db a' = Inr db'"
  using assms
  by (auto simp: cancelAppointment_def Let_def split: option.splits if_splits sum.splits)

lemma cancelAppointment_no_overlap:
  assumes "no_overlap db" and "cancelAppointment now ru i rsn db = Inr (a', db')"
  shows "no_overlap db'"
  using cancelAppointment_InrD[OF assms(2)] appointment_save_no_overlap[OF assms(1)] by blast

lemma createAppointment_conflict:
  assumes "find_admin users = Some adminUser"
    and "b_appointmentType body = Some ty" "b_reason body = Some rs" "rs \<noteq> []"
    and "b_startTime body = Some st" "b_endTime body = Some en" "now \<le> st" "st < en"
    and "x \<in> set db" "status x \<noteq> Cancelled"
    and "admin x = u_id adminUser \<or> patient x = ru_id ru"
    and "startTime x < en" "st < endTime x"
  shows "createAppointment now users ru body db = Inl (AppError 400 ''Time slot is already booked'')"
proof -
  let ?doc = "\<lparr>a_id = new_id db, patient = ru_id ru, admin = u_id adminUser,
                appointmentType = ty, status = Scheduled, startTime = st, endTime = en,
                reason = rs,
                isVirtual = (case b_isVirtual body of Some v \<Rightarrow> v | None \<Rightarrow> False),
                cancelledAt = None, cancellationReason = None\<rparr>"
  have "conflict_query ?doc x"
    using assms new_id_fresh[of x db] by (auto simp: conflict_query_def)
  with \<open>x \<in> set db\<close> have "find (conflict_query ?doc) db \<noteq> None"
    by (auto simp: find_None_iff)
  then show ?thesis
    using assms
    by (auto simp: createAppointment_def Appointment_create_def Let_def date_lt_def date_le_def
          appointment_save_def appointment_pre_save_def appointment_validate_def
          split: option.splits)
qed


section \<open>Evaluation rules\<close>

lemmas appt_eval =
  createAppointment_def updateAppointment_def cancelAppointment_def findByIdAndUpdate_def
  update_validators_def apply_patch_def find_admin_def date_lt_def date_le_def
  Appointment_create_def new_id_def appointment_save_def appointment_validate_def
  appointment_pre_save_def conflict_query_def store_put_def findById_def Let_def
  numeral_2_eq_2

lemmas slot_eval =
  getAvailableSlots_def find_admin_def Let_def slot_loop.simps setHours_def setMinutes_def
  getMinutes_def existing_query_def slot_conflict_def

lemmas cons_eval =
  createConsultation_def startConsultation_def endConsultation_def joinConsultation_def
  leaveConsultation_def addNotes_def submitFeedback_def startConsultation_m_def
  endConsultation_m_def addParticipant_def removeParticipant_def cons_save_def
  cons_validate_def pre_save_roomId_def pre_save_duration_def rating_ok_def truthy_num_def
  truthy_str_def round_minutes_def cons_findById_def cons_put_def findById_def
  appointment_user_def appointment_practitioner_def Let_def

section \<open>Slot availability: what the query returns\<close>

lemma setHours_hour: "setHours tz d 0 0 0 0 + h * 3600000 = setHours tz d h 0 0 0"
  by (simp add: setHours_def)

lemma setHours_last_ms: "setHours tz d 23 59 59 999 = setHours tz d 0 0 0 0 + 86399999"
  by (simp add: setHours_def)

lemma getAvailableSlots_eq:
  "find_admin users = Some adminUser \<Longrightarrow>
   getAvailableSlots tz now users (Some d) db =
     Inr (slot_loop tz now (setHours tz (setHours tz d 0 0 0 0) 23 59 59 999)
            (filter (existing_query (u_id adminUser) (setHours tz d 0 0 0 0)
                       (setHours tz d 0 0 0 0 + 86399999)) db) 9)"
  by (simp add: getAvailableSlots_def Let_def setHours_end_value)






text \<open>The result of the query, characterised slot by slot.\<close>

lemma getAvailableSlots_characterised:
  assumes "find_admin users = Some adminUser"
  shows "\<exists>slots. getAvailableSlots tz now users (Some d) db = Inr slots \<and>
     (\<forall>s\<in>set slots. \<forall>x\<in>set db.
        admin x = u_id adminUser \<and> status x \<noteq> Cancelled \<and>
        setHours tz d 0 0 0 0 \<le> startTime x \<and> startTime x \<le> setHours tz d 23 59 59 999 \<longrightarrow>
        \<not> (slotStart s < endTime x \<and> slotEnd s > startTime x)) \<and>
     (\<forall>s\<in>set slots. \<exists>h\<in>{9..16}. s = day_slot tz d h) \<and>
     (\<forall>h\<in>{9..16}. day_slot tz d h \<in> set slots \<longleftrightarrow>
        setHours tz d h 0 0 0 > now \<and>
        \<not> (\<exists>x\<in>set db.
             admin x = u_id adminUser \<and> status x \<noteq> Cancelled \<and>
             setHours tz d 0 0 0 0 \<le> startTime x \<and>
             startTime x \<le> setHours tz d 23 59 59 999 \<and>
             setHours tz d h 0 0 0 < endTime x \<and>
             setHours tz d h 0 0 0 + 60 * 60000 > startTime x))"
proof -
  let ?ex = "filter (existing_query (u_id adminUser) (setHours tz d 0 0 0 0)
                       (setHours tz d 0 0 0 0 + 86399999)) db"
  let ?slots = "slot_loop tz now (setHours tz (setHours tz d 0 0 0 0) 23 59 59 999) ?ex 9"
  have ex_iff: "list_ex (slot_conflict a b) ?ex \<longleftrightarrow>
      (\<exists>x\<in>set db. admin x = u_id adminUser \<and> status x \<noteq> Cancelled \<and>
             setHours tz d 0 0 0 0 \<le> startTime x \<and>
             startTime x \<le> setHours tz d 23 59 59 999 \<and>
             a < endTime x \<and> b > startTime x)" for a b
    by (auto simp: list_ex_iff existing_query_def slot_conflict_def setHours_last_ms)
  have eq: "getAvailableSlots tz now users (Some d) db = Inr ?slots"
    by (rule getAvailableSlots_eq[OF assms])
  have sound: "\<exists>k. 9 \<le> k \<and> k < 17 \<and> s = day_slot tz d k \<and>
       \<not> list_ex (slot_conflict (slotStart s) (slotEnd s)) ?ex \<and> slotStart s > now"
    if "s \<in> set ?slots" for s
    using slot_loop_sound[OF that] by (auto simp: setHours_def)
  have p1: "\<forall>s\<in>set ?slots. \<forall>x\<in>set db.
        admin x = u_id adminUser \<and> status x \<noteq> Cancelled \<and>
        setHours tz d 0 0 0 0 \<le> startTime x \<and> startTime x \<le> setHours tz d 23 59 59 999 \<longrightarrow>
        \<not> (slotStart s < endTime x \<and> slotEnd s > startTime x)"
  proof (intro ballI impI)
    fix s x assume s: "s \<in> set ?slots" and x: "x \<in> set db"
      and h: "admin x = u_id adminUser \<and> status x \<noteq> Cancelled \<and>
        setHours tz d 0 0 0 0 \<le> startTime x \<and> startTime x \<le> setHours tz d 23 59 59 999"
    from sound[OF s] have "\<not> list_ex (slot_conflict (slotStart s) (slotEnd s)) ?ex" by blast
    with x h show "\<not> (slotStart s < endTime x \<and> slotEnd s > startTime x)"
      unfolding ex_iff by blast
  qed
  have p2: "\<forall>s\<in>set ?slots. \<exists>h\<in>{9..16}. s = day_slot tz d h"
  proof
    fix s assume "s \<in> set ?slots"
    from sound[OF this] obtain k where "9 \<le> k" "k < 17" "s = day_slot tz d k" by blast
    then show "\<exists>h\<in>{9..16}. s = day_slot tz d h" by (intro bexI[of _ k]) auto
  qed
  have p3: "\<forall>h\<in>{9..16}. day_slot tz d h \<in> set ?slots \<longleftrightarrow>
        setHours tz d h 0 0 0 > now \<and>
        \<not> (\<exists>x\<in>set db.
             admin x = u_id adminUser \<and> status x \<noteq> Cancelled \<and>
             setHours tz d 0 0 0 0 \<le> startTime x \<and>
             startTime x \<le> setHours tz d 23 59 59 999 \<and>
             setHours tz d h 0 0 0 < endTime x \<and>
             setHours tz d h 0 0 0 + 60 * 60000 > startTime x)"
  proof
    fix h :: int assume h: "h \<in> {9..16}"
    show "day_slot tz d h \<in> set ?slots \<longleftrightarrow>
        setHours tz d h 0 0 0 > now \<and>
        \<not> (\<exists>x\<in>set db.
             admin x = u_id adminUser \<and> status x \<noteq> Cancelled \<and>
             setHours tz d 0 0 0 0 \<le> startTime x \<and>
             startTime x \<le> setHours tz d 23 59 59 999 \<and>
             setHours tz d h 0 0 0 < endTime x \<and>
             setHours tz d h 0 0 0 + 60 * 60000 > startTime x)"
    proof
      assume "day_slot tz d h \<in> set ?slots"
      from sound[OF this] have "slotStart (day_slot tz d h) > now \<and>
          \<not> list_ex (slot_conflict (slotStart (day_slot tz d h)) (slotEnd (day_slot tz d h))) ?ex"
        by blast
      then show "setHours tz d h 0 0 0 > now \<and>
        \<not> (\<exists>x\<in>set db.
             admin x = u_id adminUser \<and> status x \<noteq> Cancelled \<and>
             setHours tz d 0 0 0 0 \<le> startTime x \<and>
             startTime x \<le> setHours tz d 23 59 59 999 \<and>
             setHours tz d h 0 0 0 < endTime x \<and>
             setHours tz d h 0 0 0 + 60 * 60000 > startTime x)"
        unfolding ex_iff by simp
    next
      assume a: "setHours tz d h 0 0 0 > now \<and>
        \<not> (\<exists>x\<in>set db.
             admin x = u_id adminUser \<and> status x \<noteq> Cancelled \<and>
             setHours tz d 0 0 0 0 \<le> startTime x \<and>
             startTime x \<le> setHours tz d 23 59 59 999 \<and>
             setHours tz d h 0 0 0 < endTime x \<and>
             setHours tz d h 0 0 0 + 60 * 60000 > startTime x)"
      have "\<not> list_ex (slot_conflict (setHours tz d 0 0 0 0 + h * 3600000)
                (setHours tz d 0 0 0 0 + h * 3600000 + 3600000)) ?ex"
        using a unfolding ex_iff setHours_hour by (simp add: add.commute)
      moreover have "setHours tz d 0 0 0 0 + h * 3600000 > now"
        using a unfolding setHours_hour by simp
      ultimately show "day_slot tz d h \<in> set ?slots"
        using slot_loop_complete[of 9 h tz d ?ex now] h unfolding setHours_hour by simp
    qed
  qed
  from eq p1 p2 p3 show ?thesis by blast
qed




section \<open>Cancellation\<close>

lemma cancelled_no_conflict: "status x = Cancelled \<Longrightarrow> \<not> conflict_query this x"
  by (simp add: conflict_query_def)

lemma cancelled_not_fetched: "status x = Cancelled \<Longrightarrow> \<not> existing_query a s e x"
  by (simp add: existing_query_def)

lemma createAppointment_succeeds:
  assumes adm: "find_admin users = Some adminUser"
    and body: "b_appointmentType body = Some ty" "b_reason body = Some rs" "rs \<noteq> []"
      "b_startTime body = Some st" "b_endTime body = Some en"
    and times: "now \<le> st" "st < en"
    and free: "\<forall>x\<in>set db. status x \<noteq> Cancelled \<and>
                 (admin x = u_id adminUser \<or> patient x = ru_id ru) \<longrightarrow>
                 \<not> (startTime x < en \<and> endTime x > st)"
  shows "createAppointment now users ru body db =
           Inr (\<lparr>a_id = new_id db, patient = ru_id ru, admin = u_id adminUser,
                 appointmentType = ty, status = Scheduled, startTime = st, endTime = en,
                 reason = rs,
                 isVirtual = (case b_isVirtual body of Some v \<Rightarrow> v | None \<Rightarrow> False),
                 cancelledAt = None, cancellationReason = None\<rparr>,
                store_put \<lparr>a_id = new_id db, patient = ru_id ru, admin = u_id adminUser,
                 appointmentType = ty, status = Scheduled, startTime = st, endTime = en,
                 reason = rs,
                 isVirtual = (case b_isVirtual body of Some v \<Rightarrow> v | None \<Rightarrow> False),
                 cancelledAt = None, cancellationReason = None\<rparr> db)"
proof -
  let ?doc = "\<lparr>a_id = new_id db, patient = ru_id ru, admin = u_id adminUser,
                 appointmentType = ty, status = Scheduled, startTime = st, endTime = en,
                 reason = rs,
                 isVirtual = (case b_isVirtual body of Some v \<Rightarrow> v | None \<Rightarrow> False),
                 cancelledAt = None, cancellationReason = None\<rparr>"
  have "\<forall>x\<in>set db. \<not> conflict_query ?doc x"
    using free by (auto simp: conflict_query_def)
  then have "find (conflict_query ?doc) db = None" by (simp add: find_None_iff)
  then have "appointment_save db ?doc = Inr (store_put ?doc db)"
    using body times
    by (simp add: appointment_save_def appointment_pre_save_def appointment_validate_def)
  then show ?thesis
    using adm body times
    by (simp add: createAppointment_def Appointment_create_def Let_def date_lt_def date_le_def)
qed

text \<open>
  Claim C6. When \<open>cancelAppointment\<close> succeeds, the stored appointment has status
  \<open>cancelled\<close>, \<open>cancelledAt\<close> is the time of the call and the reason is recorded,
  with the default for a missing or empty one. From then on the appointment satisfies
  neither the query of the write-time overlap check nor the query of
  \<open>getAvailableSlots\<close>. So a new booking of the same window succeeds, provided the
  request is otherwise valid and no other appointment stands in the way; and a slot that
  no other fetched appointment blocks is returned again, provided it is still in the
  future.
\<close>

theorem cancelAppointment_frees_window:
  assumes cancel: "cancelAppointment now ru i rsn db = Inr (a', db')"
    and adm: "find_admin users = Some adminUser"
  shows "status a' = Cancelled \<and> cancelledAt a' = Some now \<and>
         cancellationReason a' =
           Some (case rsn of None \<Rightarrow> ''No reason provided''
                 | Some r \<Rightarrow> if r = [] then ''No reason provided'' else r) \<and>
         findById i db' = Some a' \<and>
         (\<forall>this. \<not> conflict_query this a') \<and>
         (\<forall>startOfDay endOfDay. \<not> existing_query (u_id adminUser) startOfDay endOfDay a') \<and>
         (\<forall>now' ru' body.
            b_startTime body = Some (startTime a') \<and> b_endTime body = Some (endTime a') \<and>
            b_appointmentType body \<noteq> None \<and> b_reason body \<noteq> None \<and>
            b_reason body \<noteq> Some [] \<and> now' \<le> startTime a' \<and>
            (\<forall>x\<in>set db. a_id x \<noteq> i \<and> status x \<noteq> Cancelled \<and>
                 (admin x = u_id adminUser \<or> patient x = ru_id ru') \<longrightarrow>
                 \<not> (startTime x < endTime a' \<and> endTime x > startTime a')) \<longrightarrow>
            (\<exists>b db''. createAppointment now' users ru' body db' = Inr (b, db'') \<and>
                 status b = Scheduled \<and> patient b = ru_id ru' \<and>
                 startTime b = startTime a' \<and> endTime b = endTime a' \<and> b \<in> set db'')) \<and>
         (\<forall>tz now' d h.
            h \<in> {9..16} \<and> now' < setHours tz d h 0 0 0 \<and>
            (\<forall>x\<in>set db. a_id x \<noteq> i \<and> admin x = u_id adminUser \<and> status x \<noteq> Cancelled \<and>
                 setHours tz d 0 0 0 0 \<le> startTime x \<and>
                 startTime x \<le> setHours tz d 23 59 59 999 \<longrightarrow>
                 \<not> (setHours tz d h 0 0 0 < endTime x \<and>
                    setHours tz d h 0 0 0 + 60 * 60000 > startTime x)) \<longrightarrow>
            (\<exists>slots. getAvailableSlots tz now' users (Some d) db' = Inr slots \<and>
                 day_slot tz d h \<in> set slots))"
proof -
  from cancelAppointment_InrD[OF cancel] obtain a where
    a: "findById i db = Some a"
    and a': "a' = a\<lparr>status := Cancelled, cancelledAt := Some now,
                    cancellationReason :=
                      Some (case rsn of None \<Rightarrow> ''No reason provided''
                            | Some r \<Rightarrow> if r = [] then ''No reason provided'' else r)\<rparr>"
    and save: "appointment_save db a' = Inr db'"
    by blast
  from findById_SomeD[OF a] have ida: "a_id a = i" by simp
  then have ida': "a_id a' = i" using a' by simp
  from appointment_save_InrD[OF save] have db': "db' = store_put a' db"
    and valid: "appointment_validate a'" by simp_all
  have st: "status a' = Cancelled" using a' by simp
  have mem: "x = a' \<or> (x \<in> set db \<and> a_id x \<noteq> i)" if "x \<in> set db'" for x
    using that ida' by (auto simp: db' set_store_put)
  have p1: "status a' = Cancelled \<and> cancelledAt a' = Some now \<and>
         cancellationReason a' =
           Some (case rsn of None \<Rightarrow> ''No reason provided''
                 | Some r \<Rightarrow> if r = [] then ''No reason provided'' else r)"
    using a' by simp
  have p2: "findById i db' = Some a'"
    using findById_store_put[of a' db] ida' db' by simp
  have p3: "\<forall>this. \<not> conflict_query this a'"
    using cancelled_no_conflict[OF st] by blast
  have p4: "\<forall>startOfDay endOfDay. \<not> existing_query (u_id adminUser) startOfDay endOfDay a'"
    using cancelled_not_fetched[OF st] by blast
  have p5: "\<exists>b db''. createAppointment now' users ru' body db' = Inr (b, db'') \<and>
                 status b = Scheduled \<and> patient b = ru_id ru' \<and>
                 startTime b = startTime a' \<and> endTime b = endTime a' \<and> b \<in> set db''"
    if h: "b_startTime body = Some (startTime a') \<and> b_endTime body = Some (endTime a') \<and>
            b_appointmentType body \<noteq> None \<and> b_reason body \<noteq> None \<and>
            b_reason body \<noteq> Some [] \<and> now' \<le> startTime a' \<and>
            (\<forall>x\<in>set db. a_id x \<noteq> i \<and> status x \<noteq> Cancelled \<and>
                 (admin x = u_id adminUser \<or> patient x = ru_id ru') \<longrightarrow>
                 \<not> (startTime x < endTime a' \<and> endTime x > startTime a'))"
    for now' ru' body
  proof -
    from h obtain ty rs where ty: "b_appointmentType body = Some ty"
      and rs: "b_reason body = Some rs" "rs \<noteq> []" by auto
    have free: "\<forall>x\<in>set db'. status x \<noteq> Cancelled \<and>
                 (admin x = u_id adminUser \<or> patient x = ru_id ru') \<longrightarrow>
                 \<not> (startTime x < endTime a' \<and> endTime x > startTime a')"
    proof (intro ballI impI)
      fix x assume x: "x \<in> set db'" and c: "status x \<noteq> Cancelled \<and>
                 (admin x = u_id adminUser \<or> patient x = ru_id ru')"
      from mem[OF x] c st have "x \<in> set db \<and> a_id x \<noteq> i" by auto
      with h c show "\<not> (startTime x < endTime a' \<and> endTime x > startTime a')" by blast
    qed
    have lt: "startTime a' < endTime a'" using valid by (simp add: appointment_validate_def)
    from h have t: "b_startTime body = Some (startTime a')" "b_endTime body = Some (endTime a')"
      "now' \<le> startTime a'" by simp_all
    show ?thesis
      unfolding createAppointment_succeeds[OF adm ty rs t lt free]
      by (simp add: set_store_put)
  qed
  have p6: "\<exists>slots. getAvailableSlots tz now' users (Some d) db' = Inr slots \<and>
                 day_slot tz d h \<in> set slots"
    if h: "h \<in> {9..16} \<and> now' < setHours tz d h 0 0 0 \<and>
            (\<forall>x\<in>set db. a_id x \<noteq> i \<and> admin x = u_id adminUser \<and> status x \<noteq> Cancelled \<and>
                 setHours tz d 0 0 0 0 \<le> startTime x \<and>
                 startTime x \<le> setHours tz d 23 59 59 999 \<longrightarrow>
                 \<not> (setHours tz d h 0 0 0 < endTime x \<and>
                    setHours tz d h 0 0 0 + 60 * 60000 > startTime x))"
    for tz now' d h
  proof -
    from getAvailableSlots_characterised[OF adm, of tz now' d db'] obtain slots where
      eq: "getAvailableSlots tz now' users (Some d) db' = Inr slots"
      and iff: "\<forall>h\<in>{9..16}. day_slot tz d h \<in> set slots \<longleftrightarrow>
        setHours tz d h 0 0 0 > now' \<and>
        \<not> (\<exists>x\<in>set db'.
             admin x = u_id adminUser \<and> status x \<noteq> Cancelled \<and>
             setHours tz d 0 0 0 0 \<le> startTime x \<and>
             startTime x \<le> setHours tz d 23 59 59 999 \<and>
             setHours tz d h 0 0 0 < endTime x \<and>
             setHours tz d h 0 0 0 + 60 * 60000 > startTime x)"
      by blast
    have "\<not> (\<exists>x\<in>set db'.
             admin x = u_id adminUser \<and> status x \<noteq> Cancelled \<and>
             setHours tz d 0 0 0 0 \<le> startTime x \<and>
             startTime x \<le> setHours tz d 23 59 59 999 \<and>
             setHours tz d h 0 0 0 < endTime x \<and>
             setHours tz d h 0 0 0 + 60 * 60000 > startTime x)"
    proof
      assume "\<exists>x\<in>set db'.
             admin x = u_id adminUser \<and> status x \<noteq> Cancelled \<and>
             setHours tz d 0 0 0 0 \<le> startTime x \<and>
             startTime x \<le> setHours tz d 23 59 59 999 \<and>
             setHours tz d h 0 0 0 < endTime x \<and>
             setHours tz d h 0 0 0 + 60 * 60000 > startTime x"
      then obtain x where x: "x \<in> set db'" and c: "admin x = u_id adminUser \<and> status x \<noteq> Cancelled \<and>
             setHours tz d 0 0 0 0 \<le> startTime x \<and>
             startTime x \<le> setHours tz d 23 59 59 999 \<and>
             setHours tz d h 0 0 0 < endTime x \<and>
             setHours tz d h 0 0 0 + 60 * 60000 > startTime x" by blast
      from mem[OF x] c st have "x \<in> set db \<and> a_id x \<noteq> i" by auto
      with h c show False by blast
    qed
    with iff h have "day_slot tz d h \<in> set slots" by blast
    with eq show ?thesis by blast
  qed
  from p1 p2 p3 p4 p5 p6 show ?thesis by blast
qed

theorem cancelAppointment_frees_window_witness:
  "cancelAppointment 1749513600000 \<lparr>ru_id = 2, ru_role = RUser\<rparr> 1 None
     [booking 1 2 (1749513600000 + 10 * 3600000) (1749513600000 + 11 * 3600000)]
   = Inr ((booking 1 2 (1749513600000 + 10 * 3600000) (1749513600000 + 11 * 3600000))
            \<lparr>status := Cancelled, cancelledAt := Some 1749513600000,
             cancellationReason := Some ''No reason provided''\<rparr>,
          [(booking 1 2 (1749513600000 + 10 * 3600000) (1749513600000 + 11 * 3600000))
            \<lparr>status := Cancelled, cancelledAt := Some 1749513600000,
             cancellationReason := Some ''No reason provided''\<rparr>]) \<and>
   find_admin [sample_admin] = Some sample_admin \<and>
   createAppointment 1749513600000 [sample_admin] \<lparr>ru_id = 3, ru_role = RUser\<rparr>
     (request (1749513600000 + 10 * 3600000) (1749513600000 + 11 * 3600000))
     [booking 1 2 (1749513600000 + 10 * 3600000) (1749513600000 + 11 * 3600000)]
   = Inl (AppError 400 ''Time slot is already booked'') \<and>
   (\<exists>b db''.
      createAppointment 1749513600000 [sample_admin] \<lparr>ru_id = 3, ru_role = RUser\<rparr>
        (request (1749513600000 + 10 * 3600000) (1749513600000 + 11 * 3600000))
        [(booking 1 2 (1749513600000 + 10 * 3600000) (1749513600000 + 11 * 3600000))
          \<lparr>status := Cancelled, cancelledAt := Some 1749513600000,
           cancellationReason := Some ''No reason provided''\<rparr>]
      = Inr (b, db'') \<and> status b = Scheduled \<and> patient b = 3 \<and>
      startTime b = 1749513600000 + 10 * 3600000 \<and>
      endTime b = 1749513600000 + 11 * 3600000 \<and> b \<in> set db'') \<and>
   day_slot 0 1749513600000 10 \<notin> set (projr
     (getAvailableSlots 0 1749513600000 [sample_admin] (Some 1749513600000)
        [booking 1 2 (1749513600000 + 10 * 3600000) (1749513600000 + 11 * 3600000)])) \<and>
   (\<exists>slots.
      getAvailableSlots 0 1749513600000 [sample_admin] (Some 1749513600000)
        [(booking 1 2 (1749513600000 + 10 * 3600000) (1749513600000 + 11 * 3600000))
          \<lparr>status := Cancelled, cancelledAt := Some 1749513600000,
           cancellationReason := Some ''No reason provided''\<rparr>]
      = Inr slots \<and> day_slot 0 1749513600000 10 \<in> set slots)"
proof -
  let ?a = "booking 1 2 (1749513600000 + 10 * 3600000) (1749513600000 + 11 * 3600000)"
  let ?a' = "?a\<lparr>status := Cancelled, cancelledAt := Some 1749513600000,
                cancellationReason := Some ''No reason provided''\<rparr>"
  have h1: "cancelAppointment 1749513600000 \<lparr>ru_id = 2, ru_role = RUser\<rparr> 1 None [?a]
            = Inr (?a', [?a'])"
    by (simp add: appt_eval)
  have h2: "find_admin [sample_admin] = Some sample_admin" by (simp add: find_admin_def)
  note t = cancelAppointment_frees_window[OF h1 h2]
  have before_booking:
    "createAppointment 1749513600000 [sample_admin] \<lparr>ru_id = 3, ru_role = RUser\<rparr>
       (request (1749513600000 + 10 * 3600000) (1749513600000 + 11 * 3600000)) [?a]
     = Inl (AppError 400 ''Time slot is already booked'')"
    by (simp add: appt_eval)
  have before_slot: "day_slot 0 1749513600000 10 \<notin> set (projr
     (getAvailableSlots 0 1749513600000 [sample_admin] (Some 1749513600000) [?a]))"
    by (simp add: slot_eval)
  from t have booking: "\<forall>now' ru' body.
            b_startTime body = Some (startTime ?a') \<and> b_endTime body = Some (endTime ?a') \<and>
            b_appointmentType body \<noteq> None \<and> b_reason body \<noteq> None \<and>
            b_reason body \<noteq> Some [] \<and> now' \<le> startTime ?a' \<and>
            (\<forall>x\<in>set [?a]. a_id x \<noteq> 1 \<and> status x \<noteq> Cancelled \<and>
                 (admin x = u_id sample_admin \<or> patient x = ru_id ru') \<longrightarrow>
                 \<not> (startTime x < endTime ?a' \<and> endTime x > startTime ?a')) \<longrightarrow>
            (\<exists>b db''. createAppointment now' [sample_admin] ru' body [?a'] = Inr (b, db'') \<and>
                 status b = Scheduled \<and> patient b = ru_id ru' \<and>
                 startTime b = startTime ?a' \<and> endTime b = endTime ?a' \<and> b \<in> set db'')"
    by (elim conjE)
  from t have slot: "\<forall>tz now' d h.
            h \<in> {9..16} \<and> now' < setHours tz d h 0 0 0 \<and>
            (\<forall>x\<in>set [?a]. a_id x \<noteq> 1 \<and> admin x = u_id sample_admin \<and> status x \<noteq> Cancelled \<and>
                 setHours tz d 0 0 0 0 \<le> startTime x \<and>
                 startTime x \<le> setHours tz d 23 59 59 999 \<longrightarrow>
                 \<not> (setHours tz d h 0 0 0 < endTime x \<and>
                    setHours tz d h 0 0 0 + 60 * 60000 > startTime x)) \<longrightarrow>
            (\<exists>slots. getAvailableSlots tz now' [sample_admin] (Some d) [?a'] = Inr slots \<and>
                 day_slot tz d h \<in> set slots)"
    by (elim conjE)
  have after_booking: "\<exists>b db''.
      createAppointment 1749513600000 [sample_admin] \<lparr>ru_id = 3, ru_role = RUser\<rparr>
        (request (1749513600000 + 10 * 3600000) (1749513600000 + 11 * 3600000)) [?a']
      = Inr (b, db'') \<and> status b = Scheduled \<and> patient b = 3 \<and>
      startTime b = 1749513600000 + 10 * 3600000 \<and>
      endTime b = 1749513600000 + 11 * 3600000 \<and> b \<in> set db''"
    using booking[rule_format, of "request (1749513600000 + 10 * 3600000) (1749513600000 + 11 * 3600000)"
        1749513600000 "\<lparr>ru_id = 3, ru_role = RUser\<rparr>"]
    by simp
  have after_slot: "\<exists>slots.
      getAvailableSlots 0 1749513600000 [sample_admin] (Some 1749513600000) [?a']
      = Inr slots \<and> day_slot 0 1749513600000 10 \<in> set slots"
    using slot[rule_format, of 10 1749513600000 0 1749513600000]
    by (simp add: setHours_def)
  show ?thesis
    by (intro conjI h1 h2 before_booking after_booking before_slot after_slot)
qed

section \<open>The no-overlap invariant on the write paths\<close>

text \<open>
  Claim C1. \<open>createAppointment\<close> and \<open>cancelAppointment\<close> go through \<open>save()\<close>:
  they keep the invariant (\<open>createAppointment_no_overlap\<close>,
  \<open>cancelAppointment_no_overlap\<close>), and a conflicting booking is rejected with
  \<open>Time slot is already booked\<close> (\<open>createAppointment_conflict\<close>).
  \<open>updateAppointment\<close> goes through \<open>findByIdAndUpdate\<close> and does not. The run below
  starts from the empty store: two bookings of the same admin, 10:00 to 11:00 and 11:00
  to 12:00, are created; then the owner of the second moves its start to 10:30. All
  three operations succeed, and the final store holds two scheduled appointments of the
  same admin that overlap.
\<close>

theorem update_breaks_no_overlap:
  "createAppointment 0 [sample_admin] \<lparr>ru_id = 2, ru_role = RUser\<rparr>
     (request (10 * 3600000) (11 * 3600000)) []
   = Inr (booking 1 2 (10 * 3600000) (11 * 3600000),
          [booking 1 2 (10 * 3600000) (11 * 3600000)]) \<and>
   createAppointment 0 [sample_admin] \<lparr>ru_id = 3, ru_role = RUser\<rparr>
     (request (11 * 3600000) (12 * 3600000)) [booking 1 2 (10 * 3600000) (11 * 3600000)]
   = Inr (booking 2 3 (11 * 3600000) (12 * 3600000),
          [booking 1 2 (10 * 3600000) (11 * 3600000),
           booking 2 3 (11 * 3600000) (12 * 3600000)]) \<and>
   updateAppointment None \<lparr>ru_id = 3, ru_role = RUser\<rparr> 2
     (no_patch\<lparr>p_startTime := Some (10 * 3600000 + 30 * 60000)\<rparr>)
     [booking 1 2 (10 * 3600000) (11 * 3600000), booking 2 3 (11 * 3600000) (12 * 3600000)]
   = Inr (Some (booking 2 3 (10 * 3600000 + 30 * 60000) (12 * 3600000)),
          [booking 1 2 (10 * 3600000) (11 * 3600000),
           booking 2 3 (10 * 3600000 + 30 * 60000) (12 * 3600000)]) \<and>
   admin (booking 1 2 (10 * 3600000) (11 * 3600000))
     = admin (booking 2 3 (10 * 3600000 + 30 * 60000) (12 * 3600000)) \<and>
   status (booking 1 2 (10 * 3600000) (11 * 3600000)) \<noteq> Cancelled \<and>
   status (booking 2 3 (10 * 3600000 + 30 * 60000) (12 * 3600000)) \<noteq> Cancelled \<and>
   overlaps (booking 1 2 (10 * 3600000) (11 * 3600000))
            (booking 2 3 (10 * 3600000 + 30 * 60000) (12 * 3600000))"
  by (simp add: appt_eval overlaps_def)

lemma updateAppointment_unguarded:
  assumes "findById i db = Some x"
    and "ru_role ru = RAdmin \<or> ru_role ru = RStaff \<or> patient x = ru_id ru"
    and "update_validators thisStart p"
  shows "updateAppointment thisStart ru i p db =
           Inr (Some (apply_patch p x), store_put (apply_patch p x) db)"
  using assms by (auto simp: updateAppointment_def findByIdAndUpdate_def Let_def)

text \<open>
  Claim C3. \<open>updateAppointment\<close> does not re-run the overlap check: a staff member
  moves the start of the second appointment to 10:00, onto the first one. The update is
  accepted and stored, although \<open>save()\<close> of the very same document on the very same
  store is rejected with \<open>Time slot is already booked\<close>.
\<close>

theorem update_skips_overlap_check:
  "updateAppointment None \<lparr>ru_id = 9, ru_role = RStaff\<rparr> 2
     (no_patch\<lparr>p_startTime := Some (10 * 3600000)\<rparr>)
     [booking 1 2 (10 * 3600000) (11 * 3600000), booking 2 3 (11 * 3600000) (12 * 3600000)]
   = Inr (Some (booking 2 3 (10 * 3600000) (12 * 3600000)),
          [booking 1 2 (10 * 3600000) (11 * 3600000),
           booking 2 3 (10 * 3600000) (12 * 3600000)]) \<and>
   appointment_save
     [booking 1 2 (10 * 3600000) (11 * 3600000), booking 2 3 (11 * 3600000) (12 * 3600000)]
     (booking 2 3 (10 * 3600000) (12 * 3600000))
   = Inl (AppError 400 ''Time slot is already booked'') \<and>
   overlaps (booking 1 2 (10 * 3600000) (11 * 3600000))
            (booking 2 3 (10 * 3600000) (12 * 3600000))"
  by (simp add: appt_eval overlaps_def)

section \<open>Consultations: authorization\<close>

text \<open>
  Claim C5. For an existing consultation, a caller who is neither its patient nor its
  practitioner nor an admin is rejected with a 403 error by \<open>startConsultation\<close>,
  \<open>endConsultation\<close>, \<open>joinConsultation\<close>, \<open>addNotes\<close> and \<open>submitFeedback\<close>, and the
  store is left as it was. \<open>endConsultation\<close> rejects every caller who is neither the
  practitioner nor an admin, the patient included.
\<close>

theorem unauthorized_caller_rejected:
  assumes "cons_findById i db = Some c"
  shows "(c_patient c \<noteq> ru_id ru \<and> practitioner c \<noteq> ru_id ru \<and> ru_role ru \<noteq> RAdmin \<longrightarrow>
            startConsultation now ru i db =
              (Inl (AppError 403 ''Not authorized to start this consultation''), db) \<and>
            endConsultation now ru i ebody db =
              (Inl (AppError 403 ''Only the practitioner can end the consultation''), db) \<and>
            joinConsultation now ru i db =
              (Inl (AppError 403 ''Not authorized to join this consultation''), db) \<and>
            addNotes now ru i notes ty db =
              (Inl (AppError 403 ''Not authorized to add notes to this consultation''), db) \<and>
            submitFeedback now ru i fbody db =
              (Inl (AppError 403 ''Not authorized to submit feedback for this consultation''),
               db)) \<and>
         (practitioner c \<noteq> ru_id ru \<and> ru_role ru \<noteq> RAdmin \<longrightarrow>
            endConsultation now ru i ebody db =
              (Inl (AppError 403 ''Only the practitioner can end the consultation''), db))"
  using assms
  by (simp add: startConsultation_def endConsultation_def joinConsultation_def addNotes_def
        submitFeedback_def)

theorem unauthorized_caller_rejected_witness:
  "cons_findById 1 [sample_consultation] = Some sample_consultation \<and>
   startConsultation 0 \<lparr>ru_id = 7, ru_role = RStaff\<rparr> 1 [sample_consultation] =
     (Inl (AppError 403 ''Not authorized to start this consultation''), [sample_consultation]) \<and>
   endConsultation 0 \<lparr>ru_id = 7, ru_role = RStaff\<rparr> 1
       \<lparr>e_notes = None, e_patientNotes = None, e_practitionerNotes = None\<rparr>
       [sample_consultation] =
     (Inl (AppError 403 ''Only the practitioner can end the consultation''),
      [sample_consultation]) \<and>
   joinConsultation 0 \<lparr>ru_id = 7, ru_role = RStaff\<rparr> 1 [sample_consultation] =
     (Inl (AppError 403 ''Not authorized to join this consultation''), [sample_consultation]) \<and>
   addNotes 0 \<lparr>ru_id = 7, ru_role = RStaff\<rparr> 1 (Some ''note'') None [sample_consultation] =
     (Inl (AppError 403 ''Not authorized to add notes to this consultation''),
      [sample_consultation]) \<and>
   submitFeedback 0 \<lparr>ru_id = 7, ru_role = RStaff\<rparr> 1
       \<lparr>f_rating = Some 5, f_feedback = None, f_technicalRating = None\<rparr>
       [sample_consultation] =
     (Inl (AppError 403 ''Not authorized to submit feedback for this consultation''),
      [sample_consultation]) \<and>
   endConsultation 0 \<lparr>ru_id = 2, ru_role = RUser\<rparr> 1
       \<lparr>e_notes = None, e_patientNotes = None, e_practitionerNotes = None\<rparr>
       [sample_consultation] =
     (Inl (AppError 403 ''Only the practitioner can end the consultation''),
      [sample_consultation])"
proof -
  have h: "cons_findById 1 [sample_consultation] = Some sample_consultation"
    by (simp add: cons_findById_def)
  show ?thesis
    using h
      unauthorized_caller_rejected[OF h, of "\<lparr>ru_id = 7, ru_role = RStaff\<rparr>" 0
        "\<lparr>e_notes = None, e_patientNotes = None, e_practitionerNotes = None\<rparr>"
        "Some ''note''" None "\<lparr>f_rating = Some 5, f_feedback = None, f_technicalRating = None\<rparr>"]
      unauthorized_caller_rejected[OF h, of "\<lparr>ru_id = 2, ru_role = RUser\<rparr>" 0
        "\<lparr>e_notes = None, e_patientNotes = None, e_practitionerNotes = None\<rparr>"]
    by simp
qed

section \<open>Consultations: the lifecycle methods\<close>

lemma cons_save_valid:
  "cons_validate c \<Longrightarrow> cons_save now c = Inr (pre_save_duration c)"
  by (auto simp: cons_save_def cons_validate_def pre_save_roomId_def)

lemma pre_save_duration_fields:
  "c_status (pre_save_duration c) = c_status c"
  "actualStartTime (pre_save_duration c) = actualStartTime c"
  "actualEndTime (pre_save_duration c) = actualEndTime c"
  "participants (pre_save_duration c) = participants c"
  "c_id (pre_save_duration c) = c_id c"
  by (simp_all add: pre_save_duration_def split: option.splits)

lemma pre_save_duration_recomputed:
  "actualStartTime c = Some s \<Longrightarrow> actualEndTime c = Some e \<Longrightarrow>
   duration c = Some (round_minutes (e - s)) \<Longrightarrow> pre_save_duration c = c"
  by (simp add: pre_save_duration_def truthy_num_def)

lemma cons_save_as_is:
  "cons_validate c \<Longrightarrow> actualStartTime c = Some s \<Longrightarrow> actualEndTime c = Some e \<Longrightarrow>
   duration c = Some (round_minutes (e - s)) \<Longrightarrow> cons_save now c = Inr c"
  by (simp add: cons_save_valid pre_save_duration_recomputed)

text \<open>
  Claim C10, as the code has it. The methods \<open>startConsultation\<close> and
  \<open>endConsultation\<close> of the model never read the current status: whatever status the
  document is given, the result is the same. On any document that passes validation,
  whatever its status, \<open>startConsultation\<close> succeeds and stores status \<open>active\<close> with
  \<open>actualStartTime\<close> set to the time of the call. On any such document whose
  \<open>actualStartTime\<close> is set, whatever its status, \<open>endConsultation\<close> succeeds and stores
  status \<open>completed\<close>, \<open>actualEndTime\<close> set to the time of the call, and the duration
  recomputed from the two. On a document whose \<open>actualStartTime\<close> is unset,
  \<open>endConsultation\<close> is rejected at the save.
\<close>

theorem lifecycle_methods_ignore_status:
  "startConsultation_m now (c\<lparr>c_status := s\<rparr>) = startConsultation_m now c \<and>
   endConsultation_m now notes (c\<lparr>c_status := s\<rparr>) = endConsultation_m now notes c \<and>
   (cons_validate c \<longrightarrow>
      (\<exists>c'. startConsultation_m now c = Inr c' \<and> c_status c' = CActive \<and>
            actualStartTime c' = Some now)) \<and>
   (cons_validate c \<and> actualStartTime c = Some t \<longrightarrow>
      (\<exists>c'. endConsultation_m now notes c = Inr c' \<and> c_status c' = CCompleted \<and>
            actualEndTime c' = Some now \<and> duration c' = Some (round_minutes (now - t)))) \<and>
   (actualStartTime c = None \<longrightarrow> endConsultation_m now notes c = Inl ValidationError)"
proof (intro conjI impI)
  show "startConsultation_m now (c\<lparr>c_status := s\<rparr>) = startConsultation_m now c"
    by (simp add: startConsultation_m_def)
  show "endConsultation_m now notes c = Inl ValidationError" if "actualStartTime c = None"
    using that by (simp add: endConsultation_m_def Let_def)
  show "endConsultation_m now notes (c\<lparr>c_status := s\<rparr>) = endConsultation_m now notes c"
    by (simp add: endConsultation_m_def)
next
  assume v: "cons_validate c"
  then have "cons_validate (c\<lparr>c_status := CActive, actualStartTime := Some now\<rparr>)"
    by (simp add: cons_validate_def)
  from cons_save_valid[OF this]
  show "\<exists>c'. startConsultation_m now c = Inr c' \<and> c_status c' = CActive \<and>
            actualStartTime c' = Some now"
    by (simp add: startConsultation_m_def pre_save_duration_fields)
next
  assume "cons_validate c \<and> actualStartTime c = Some t"
  then have v: "cons_validate c" and t: "actualStartTime c = Some t" by simp_all
  show "\<exists>c'. endConsultation_m now notes c = Inr c' \<and> c_status c' = CCompleted \<and>
            actualEndTime c' = Some now \<and> duration c' = Some (round_minutes (now - t))"
  proof (cases "truthy_str notes")
    case True
    let ?c3 = "c\<lparr>c_status := CCompleted, actualEndTime := Some now,
                 c_notes := map_option trim notes,
                 duration := Some (round_minutes (now - t))\<rparr>"
    have "cons_validate ?c3" using v by (simp add: cons_validate_def)
    then have "cons_save now ?c3 = Inr ?c3"
      by (rule cons_save_as_is[of _ t now]) (simp_all add: t)
    then have "endConsultation_m now notes c = Inr ?c3"
      using True t by (simp add: endConsultation_m_def Let_def)
    then show ?thesis by simp
  next
    case False
    let ?c3 = "c\<lparr>c_status := CCompleted, actualEndTime := Some now,
                 duration := Some (round_minutes (now - t))\<rparr>"
    have "cons_validate ?c3" using v by (simp add: cons_validate_def)
    then have "cons_save now ?c3 = Inr ?c3"
      by (rule cons_save_as_is[of _ t now]) (simp_all add: t)
    then have "endConsultation_m now notes c = Inr ?c3"
      using False t by (simp add: endConsultation_m_def Let_def)
    then show ?thesis by simp
  qed
qed

theorem lifecycle_methods_ignore_status_witness:
  "cons_validate (sample_consultation\<lparr>c_status := CCompleted,
       actualStartTime := Some (1749513600000 + 10 * 3600000),
       actualEndTime := Some (1749513600000 + 10 * 3600000 + 20 * 60000),
       duration := Some 20\<rparr>) \<and>
   startConsultation_m (1749513600000 + 10 * 3600000 + 30 * 60000)
     (sample_consultation\<lparr>c_status := CCompleted,
       actualStartTime := Some (1749513600000 + 10 * 3600000),
       actualEndTime := Some (1749513600000 + 10 * 3600000 + 20 * 60000),
       duration := Some 20\<rparr>)
   = Inr (sample_consultation\<lparr>c_status := CActive,
       actualStartTime := Some (1749513600000 + 10 * 3600000 + 30 * 60000),
       actualEndTime := Some (1749513600000 + 10 * 3600000 + 20 * 60000),
       duration := Some 20\<rparr>) \<and>
   endConsultation_m (1749513600000 + 10 * 3600000 + 30 * 60000) None
     (sample_consultation\<lparr>c_status := CCompleted,
       actualStartTime := Some (1749513600000 + 10 * 3600000),
       actualEndTime := Some (1749513600000 + 10 * 3600000 + 20 * 60000),
       duration := Some 20\<rparr>)
   = Inr (sample_consultation\<lparr>c_status := CCompleted,
       actualStartTime := Some (1749513600000 + 10 * 3600000),
       actualEndTime := Some (1749513600000 + 10 * 3600000 + 30 * 60000),
       duration := Some 30\<rparr>) \<and>
   (\<exists>c'. startConsultation_m (1749513600000 + 10 * 3600000 + 30 * 60000)
           (sample_consultation\<lparr>c_status := CCompleted,
             actualStartTime := Some (1749513600000 + 10 * 3600000),
             actualEndTime := Some (1749513600000 + 10 * 3600000 + 20 * 60000),
             duration := Some 20\<rparr>) = Inr c' \<and>
         c_status c' = CActive \<and>
         actualStartTime c' = Some (1749513600000 + 10 * 3600000 + 30 * 60000)) \<and>
   (\<exists>c'. endConsultation_m (1749513600000 + 10 * 3600000 + 30 * 60000) None
           (sample_consultation\<lparr>c_status := CCompleted,
             actualStartTime := Some (1749513600000 + 10 * 3600000),
             actualEndTime := Some (1749513600000 + 10 * 3600000 + 20 * 60000),
             duration := Some 20\<rparr>) = Inr c' \<and>
         c_status c' = CCompleted \<and>
         actualEndTime c' = Some (1749513600000 + 10 * 3600000 + 30 * 60000) \<and>
         duration c' = Some 30)"
proof -
  let ?c = "sample_consultation\<lparr>c_status := CCompleted,
       actualStartTime := Some (1749513600000 + 10 * 3600000),
       actualEndTime := Some (1749513600000 + 10 * 3600000 + 20 * 60000),
       duration := Some 20\<rparr>"
  have v: "cons_validate ?c" by (simp add: cons_validate_def rating_ok_def)
  have t: "actualStartTime ?c = Some (1749513600000 + 10 * 3600000)" by simp
  note th = lifecycle_methods_ignore_status[of "1749513600000 + 10 * 3600000 + 30 * 60000"
      CCompleted ?c None "1749513600000 + 10 * 3600000"]
  have e1: "startConsultation_m (1749513600000 + 10 * 3600000 + 30 * 60000) ?c
   = Inr (sample_consultation\<lparr>c_status := CActive,
       actualStartTime := Some (1749513600000 + 10 * 3600000 + 30 * 60000),
       actualEndTime := Some (1749513600000 + 10 * 3600000 + 20 * 60000),
       duration := Some 20\<rparr>)"
    by (simp add: cons_eval)
  have e2: "endConsultation_m (1749513600000 + 10 * 3600000 + 30 * 60000) None ?c
   = Inr (sample_consultation\<lparr>c_status := CCompleted,
       actualStartTime := Some (1749513600000 + 10 * 3600000),
       actualEndTime := Some (1749513600000 + 10 * 3600000 + 30 * 60000),
       duration := Some 30\<rparr>)"
    by (simp add: cons_eval)
  from th v have s: "\<exists>c'. startConsultation_m (1749513600000 + 10 * 3600000 + 30 * 60000) ?c
       = Inr c' \<and> c_status c' = CActive \<and>
         actualStartTime c' = Some (1749513600000 + 10 * 3600000 + 30 * 60000)"
    by blast
  from th v t have "\<exists>c'. endConsultation_m (1749513600000 + 10 * 3600000 + 30 * 60000) None ?c
       = Inr c' \<and> c_status c' = CCompleted \<and>
         actualEndTime c' = Some (1749513600000 + 10 * 3600000 + 30 * 60000) \<and>
         duration c' = Some (round_minutes (1749513600000 + 10 * 3600000 + 30 * 60000 -
                                            (1749513600000 + 10 * 3600000)))"
    by blast
  then have e: "\<exists>c'. endConsultation_m (1749513600000 + 10 * 3600000 + 30 * 60000) None ?c
       = Inr c' \<and> c_status c' = CCompleted \<and>
         actualEndTime c' = Some (1749513600000 + 10 * 3600000 + 30 * 60000) \<and>
         duration c' = Some 30"
    by (simp add: round_minutes_def)
  show ?thesis by (intro conjI v e1 e2 s e)
qed

text \<open>
  The claim as stated fails on a consultation that was never started: it is valid, its
  status is \<open>scheduled\<close> and \<open>actualStartTime\<close> is unset; \<open>endConsultation\<close> does not
  store status \<open>completed\<close>, the save is rejected.
\<close>

theorem endConsultation_never_started_counterexample:
  "cons_validate sample_consultation \<and>
   c_status sample_consultation = CScheduled \<and>
   actualStartTime sample_consultation = None \<and>
   endConsultation_m (1749513600000 + 10 * 3600000) None sample_consultation
     = Inl ValidationError \<and>
   endConsultation (1749513600000 + 10 * 3600000) \<lparr>ru_id = 1, ru_role = RAdmin\<rparr> 1
     \<lparr>e_notes = None, e_patientNotes = None, e_practitionerNotes = None\<rparr>
     [sample_consultation]
     = (Inl ValidationError, [sample_consultation])"
  by (simp add: cons_eval)

section \<open>Consultations: leaving\<close>

lemma cons_find_SomeD: "cons_findById i db = Some c \<Longrightarrow> c_id c = i \<and> c \<in> set db"
  unfolding cons_findById_def by (drule find_SomeD) simp

lemma cons_put_same:
  assumes "distinct (map c_id db)" and "cons_findById i db = Some c"
  shows "cons_put c db = db"
proof -
  from cons_find_SomeD[OF assms(2)] have c: "c \<in> set db" "c_id c = i" by simp_all
  from assms(1) have inj: "inj_on c_id (set db)" by (simp add: distinct_map)
  have "map (\<lambda>x. if c_id x = c_id c then c else x) db = db"
  proof (rule map_idI)
    fix x assume "x \<in> set db"
    with inj c show "(if c_id x = c_id c then c else x) = x" by (auto dest: inj_onD)
  qed
  with assms(2) c show ?thesis by (simp add: cons_put_def)
qed

lemma pre_save_duration_idem: "pre_save_duration (pre_save_duration c) = pre_save_duration c"
  by (simp add: pre_save_duration_def truthy_num_def split: option.splits)

lemma cons_save_persisted:
  assumes "cons_save now c = Inr c'"
  shows "cons_validate c' \<and> pre_save_duration c' = c'"
proof -
  from assms have v: "cons_validate c" and c': "c' = pre_save_duration (pre_save_roomId now c)"
    by (auto simp: cons_save_def split: if_splits)
  have "cons_validate (pre_save_duration (pre_save_roomId now c))"
    using v
    by (auto simp: cons_validate_def pre_save_duration_def pre_save_roomId_def
             split: option.splits)
  with c' show ?thesis by (simp add: pre_save_duration_idem)
qed

text \<open>
  Claim C9. \<open>leaveConsultation\<close> makes no authorization check. For a stored
  consultation (one that passes validation and on which the duration middleware has
  nothing left to do, as \<open>cons_save_persisted\<close> shows of every saved document) and any
  caller, of any role, who has no entry in \<open>participants\<close>, the call succeeds and
  returns the consultation unchanged; the store is unchanged too.
\<close>

theorem leave_by_non_participant:
  assumes "cons_findById i db = Some c"
    and "distinct (map c_id db)"
    and "cons_validate c" and "pre_save_duration c = c"
    and "\<forall>p\<in>set (participants c). pt_user p \<noteq> ru_id ru"
  shows "leaveConsultation now ru i db = (Inr c, db)"
proof -
  have "find (\<lambda>p. pt_user p = ru_id ru) (participants c) = None"
    using assms(5) by (simp add: find_None_iff)
  then have "removeParticipant now (ru_id ru) c = Inr c"
    using cons_save_valid[OF assms(3), of now] assms(4) by (simp add: removeParticipant_def)
  then show ?thesis
    using assms(1) cons_put_same[OF assms(2,1)] by (simp add: leaveConsultation_def)
qed

theorem leave_by_non_participant_witness:
  "cons_findById 1 [sample_consultation\<lparr>participants :=
       [\<lparr>pt_user = 2, pt_role = Some PPatient, joinedAt = Some 1749513600000,
         leftAt = None, connectionStatus = Connected\<rparr>]\<rparr>]
     = Some (sample_consultation\<lparr>participants :=
       [\<lparr>pt_user = 2, pt_role = Some PPatient, joinedAt = Some 1749513600000,
         leftAt = None, connectionStatus = Connected\<rparr>]\<rparr>) \<and>
   leaveConsultation 1749513600001 \<lparr>ru_id = 7, ru_role = RUser\<rparr> 1
     [sample_consultation\<lparr>participants :=
       [\<lparr>pt_user = 2, pt_role = Some PPatient, joinedAt = Some 1749513600000,
         leftAt = None, connectionStatus = Connected\<rparr>]\<rparr>]
   = (Inr (sample_consultation\<lparr>participants :=
       [\<lparr>pt_user = 2, pt_role = Some PPatient, joinedAt = Some 1749513600000,
         leftAt = None, connectionStatus = Connected\<rparr>]\<rparr>),
      [sample_consultation\<lparr>participants :=
       [\<lparr>pt_user = 2, pt_role = Some PPatient, joinedAt = Some 1749513600000,
         leftAt = None, connectionStatus = Connected\<rparr>]\<rparr>])"
proof -
  let ?c = "sample_consultation\<lparr>participants :=
       [\<lparr>pt_user = 2, pt_role = Some PPatient, joinedAt = Some 1749513600000,
         leftAt = None, connectionStatus = Connected\<rparr>]\<rparr>"
  have h1: "cons_findById 1 [?c] = Some ?c" by (simp add: cons_findById_def)
  have h2: "distinct (map c_id [?c])" by simp
  have h3: "cons_validate ?c" by (simp add: cons_validate_def rating_ok_def)
  have h4: "pre_save_duration ?c = ?c" by (simp add: pre_save_duration_def)
  have h5: "\<forall>p\<in>set (participants ?c). pt_user p \<noteq> ru_id \<lparr>ru_id = 7, ru_role = RUser\<rparr>"
    by simp
  show ?thesis
    using h1 leave_by_non_participant[OF h1 h2 h3 h4 h5, of 1749513600001] by simp
qed

section \<open>Consultations: joining\<close>

text \<open>
  Joining and leaving never change the status (\<open>join_leave_keep_status\<close>). For a user
  who has an entry, joining again stamps \<open>joinedAt\<close> and clears \<open>leftAt\<close> on that entry
  (\<open>rejoin_clears_leftAt\<close>), and leaving stamps \<open>leftAt\<close> on it
  (\<open>leave_stamps_leftAt\<close>); no entry is added. For a user who has no entry,
  \<open>addParticipant\<close> pushes one without a \<open>role\<close>, and the save rejects it
  (\<open>addParticipant_new_rejected\<close>).
\<close>

lemma addParticipant_new_rejected:
  "find (\<lambda>p. pt_user p = userId) (participants c) = None \<Longrightarrow>
   addParticipant now userId c = Inl ValidationError"
  by (simp add: addParticipant_def cons_save_def cons_validate_def)

lemma cons_save_status: "cons_save now c = Inr c' \<Longrightarrow> c_status c' = c_status c"
  by (auto simp: cons_save_def pre_save_duration_fields pre_save_roomId_def split: if_splits)

lemma cons_save_participants: "cons_save now c = Inr c' \<Longrightarrow> participants c' = participants c"
  by (auto simp: cons_save_def pre_save_duration_fields pre_save_roomId_def split: if_splits)

lemma addParticipant_status:
  "addParticipant now userId c = Inr c' \<Longrightarrow> c_status c' = c_status c"
  by (auto simp: addParticipant_def split: option.splits dest!: cons_save_status)

lemma removeParticipant_status:
  "removeParticipant now userId c = Inr c' \<Longrightarrow> c_status c' = c_status c"
  by (auto simp: removeParticipant_def split: option.splits dest!: cons_save_status)

lemma join_leave_keep_status:
  assumes "cons_findById i db = Some c"
  shows "joinConsultation now ru i db = (Inr c', db') \<Longrightarrow> c_status c' = c_status c"
    and "leaveConsultation now ru i db = (Inr c', db') \<Longrightarrow> c_status c' = c_status c"
    and "joinConsultation now ru i db = (Inl e, db') \<Longrightarrow> db' = db"
    and "leaveConsultation now ru i db = (Inl e, db') \<Longrightarrow> db' = db"
  using assms
  by (auto simp: joinConsultation_def leaveConsultation_def
           split: if_splits sum.splits dest: addParticipant_status removeParticipant_status)

lemma length_update_first: "length (update_first P f xs) = length xs"
  by (induction xs) auto

lemma find_update_first:
  "find P xs = Some x \<Longrightarrow> P (f x) \<Longrightarrow> find P (update_first P f xs) = Some (f x)"
  by (induction xs) (auto split: if_splits)

lemma rejoin_clears_leftAt:
  assumes "find (\<lambda>p. pt_user p = userId) (participants c) = Some p"
    and "addParticipant now userId c = Inr c'"
  shows "length (participants c') = length (participants c) \<and>
         find (\<lambda>p. pt_user p = userId) (participants c') =
           Some (p\<lparr>joinedAt := Some now, leftAt := None\<rparr>)"
proof -
  from assms(1) have u: "pt_user p = userId" by (auto dest: find_SomeD)
  from assms have "participants c' =
      update_first (\<lambda>p. pt_user p = userId)
        (\<lambda>p. p\<lparr>joinedAt := Some now, leftAt := None\<rparr>) (participants c)"
    by (auto simp: addParticipant_def dest!: cons_save_participants)
  then show ?thesis
    using find_update_first[OF assms(1), of "\<lambda>p. p\<lparr>joinedAt := Some now, leftAt := None\<rparr>"] u
    by (simp add: length_update_first)
qed

lemma leave_stamps_leftAt:
  assumes "find (\<lambda>p. pt_user p = userId) (participants c) = Some p"
    and "removeParticipant now userId c = Inr c'"
  shows "length (participants c') = length (participants c) \<and>
         find (\<lambda>p. pt_user p = userId) (participants c') = Some (p\<lparr>leftAt := Some now\<rparr>)"
proof -
  from assms(1) have u: "pt_user p = userId" by (auto dest: find_SomeD)
  from assms have "participants c' =
      update_first (\<lambda>p. pt_user p = userId) (\<lambda>p. p\<lparr>leftAt := Some now\<rparr>) (participants c)"
    by (auto simp: removeParticipant_def dest!: cons_save_participants)
  then show ?thesis
    using find_update_first[OF assms(1), of "\<lambda>p. p\<lparr>leftAt := Some now\<rparr>"] u
    by (simp add: length_update_first)
qed

text \<open>
  Claim C8. The first join of a user does not add an entry: the patient of a
  consultation with no participants joins, the request fails with a validation error,
  and the store is unchanged.
\<close>

theorem first_join_rejected:
  "joinConsultation 1749513600000 \<lparr>ru_id = 2, ru_role = RUser\<rparr> 1 [sample_consultation]
   = (Inl ValidationError, [sample_consultation]) \<and>
   c_patient sample_consultation = 2 \<and> participants sample_consultation = []"
  by (simp add: cons_eval)

section \<open>Consultations: creation\<close>

lemma createConsultation_existing_appointment:
  "findById appointmentId adb = Some appointment \<Longrightarrow>
   createConsultation now ru appointmentId adb cdb = (Inl TypeError, cdb)"
  by (simp add: createConsultation_def appointment_user_def)

text \<open>
  Claim C4. \<open>createConsultation\<close> for an existing appointment does not return a
  consultation: the patient of the appointment calls it twice, then an admin calls it;
  each call throws on \<open>appointment.user._id\<close>, and no consultation is stored.
\<close>

theorem createConsultation_throws:
  "createConsultation 1749513600000 \<lparr>ru_id = 2, ru_role = RUser\<rparr> 1
     [booking 1 2 (1749513600000 + 10 * 3600000) (1749513600000 + 11 * 3600000)] []
   = (Inl TypeError, []) \<and>
   createConsultation 1749513600001 \<lparr>ru_id = 2, ru_role = RUser\<rparr> 1
     [booking 1 2 (1749513600000 + 10 * 3600000) (1749513600000 + 11 * 3600000)] []
   = (Inl TypeError, []) \<and>
   createConsultation 1749513600002 \<lparr>ru_id = 1, ru_role = RAdmin\<rparr> 1
     [booking 1 2 (1749513600000 + 10 * 3600000) (1749513600000 + 11 * 3600000)] []
   = (Inl TypeError, [])"
  by (simp add: cons_eval)

end
